theory Spec2Isabelle
  imports Main "HOL-Library.Multiset" "HOL-Library.List_Lexorder" "HOL-Library.Char_ord"
begin

section \<open>Python values, errors and output of the command line tool\<close>

text \<open>
  The command line module \<^verbatim>\<open>src/rsparam/cli.py\<close> is the only module of the
  repository at hand. It reads its options from the dictionary \<^verbatim>\<open>args\<close> that
  docopt builds, calls the library \<^verbatim>\<open>rsparam\<close> and prints lines and tables.
  The exceptions that can leave its functions are values of \<open>error\<close>.
\<close>

datatype error =
    TypeError
  | NotImplementedError
  | IndexError
  | DecodeError string
  | MalformedLineError nat string
  | PatternError string
  | LibraryError string

text \<open>
  A cell of a printed row. \<open>PObj l\<close> is an object of a class that is not modelled
  further (a group object of the library, a bound method); \<open>l\<close> is the text that
  \<^verbatim>\<open>str()\<close> gives for it.
\<close>

datatype pyval = PNone | PInt int | PStr string | PObj string

definition digit_char :: "nat \<Rightarrow> char" where
  "digit_char n = ''0123456789'' ! (n mod 10)"

fun digits :: "nat \<Rightarrow> string" where
  "digits n = (if n < 10 then [digit_char n] else digits (n div 10) @ [digit_char (n mod 10)])"

declare digits.simps [simp del]

definition str_int :: "int \<Rightarrow> string" where
  "str_int i = (if i < 0 then CHR ''-'' # digits (nat (- i)) else digits (nat i))"

fun py_str :: "pyval \<Rightarrow> string" where
  "py_str PNone = ''None''"
| "py_str (PInt i) = str_int i"
| "py_str (PStr s) = s"
| "py_str (PObj l) = l"

text \<open>Colours of the \<^verbatim>\<open>colorful\<close> package; a line is printed plain or in one of them.\<close>

datatype colour = Plain | Yellow | Blue

datatype out = Line colour string | Table "pyval list list" "string list"

text \<open>
  A run of a function of the module: what it has printed, and whether it returned or
  raised. What was printed before an exception stays printed.
\<close>

type_synonym 'a run = "out list \<times> (error + 'a)"

definition returned :: "out list \<Rightarrow> unit run" where
  "returned os = (os, Inr ())"

definition raised :: "error \<Rightarrow> 'a run" where
  "raised e = ([], Inl e)"

definition and_then :: "'a run \<Rightarrow> ('a \<Rightarrow> 'b run) \<Rightarrow> 'b run" where
  "and_then p f =
     (case snd p of
        Inl e \<Rightarrow> (fst p, Inl e)
      | Inr v \<Rightarrow> (fst p @ fst (f v), snd (f v)))"

definition bind_err :: "error + 'a \<Rightarrow> ('a \<Rightarrow> error + 'b) \<Rightarrow> error + 'b" where
  "bind_err r f = (case r of Inl e \<Rightarrow> Inl e | Inr v \<Rightarrow> f v)"

definition lift_err :: "error + 'a \<Rightarrow> 'a run" where
  "lift_err r = ([], r)"

subsection \<open>Calling a Python function\<close>

text \<open>
  \<open>bind_args ps pos kws\<close> binds the positional values \<open>pos\<close> and the keyword
  arguments \<open>kws\<close> to the parameters \<open>ps\<close> of a function whose parameters have no
  default, as the two stubs \<^verbatim>\<open>merge\<close> and \<^verbatim>\<open>sort\<close> are declared. Python raises
  TypeError, before the body runs, on too many positional arguments, on a keyword that
  names no parameter, on a parameter given twice and on a parameter left without a value.
\<close>

fun lookup_all :: "(string \<times> 'v) list \<Rightarrow> string list \<Rightarrow> 'v list option" where
  "lookup_all kws [] = Some []"
| "lookup_all kws (p # ps) =
     (case map_of kws p of
        None \<Rightarrow> None
      | Some v \<Rightarrow> (case lookup_all kws ps of None \<Rightarrow> None | Some vs \<Rightarrow> Some (v # vs)))"

definition bind_args :: "string list \<Rightarrow> 'v list \<Rightarrow> (string \<times> 'v) list \<Rightarrow> error + 'v list" where
  "bind_args ps pos kws =
     (if length ps < length pos then Inl TypeError
      else if list_ex (\<lambda>k. k \<notin> set ps) (map fst kws) then Inl TypeError
      else if list_ex (\<lambda>k. k \<in> set (take (length pos) ps)) (map fst kws) then Inl TypeError
      else (case lookup_all kws (drop (length pos) ps) of
              None \<Rightarrow> Inl TypeError
            | Some vs \<Rightarrow> Inr (pos @ vs)))"

section \<open>The options of the command line\<close>

text \<open>
  The dictionary \<^verbatim>\<open>args\<close>: one field for each command (\<open>cmd_\<close>), option (\<open>opt_\<close>) and
  positional argument (\<open>arg_\<close>) of the usage text. docopt gives \<^verbatim>\<open>None\<close> for an option
  with an argument that is absent and has no default.
\<close>

record args =
  cmd_list :: bool
  cmd_find :: bool
  cmd_dupl :: bool
  cmd_comp :: bool
  cmd_merge :: bool
  cmd_sort :: bool
  opt_quiet :: bool
  opt_encode :: "string option"
  opt_all :: bool
  opt_params :: bool
  opt_groups :: bool
  opt_sortby :: "string option"
  opt_columns :: "string option"
  opt_filter :: "string option"
  opt_byname :: bool
  opt_first :: bool
  opt_second :: bool
  arg_src_file :: "string option"
  arg_regex_pattern :: "string option"
  arg_first_file :: "string option"
  arg_second_file :: "string option"
  arg_dest_file :: "string option"
  arg_src_files :: "string list"

text \<open>Truth of an optional string: \<^verbatim>\<open>None\<close> and the empty string are false.\<close>

fun truthy :: "string option \<Rightarrow> bool" where
  "truthy None = False"
| "truthy (Some s) = (s \<noteq> [])"

text \<open>What \<^verbatim>\<open>'{}'.format(v)\<close> prints for an optional string.\<close>

fun fmt :: "string option \<Rightarrow> string" where
  "fmt None = ''None''"
| "fmt (Some s) = s"

definition report :: "args \<Rightarrow> colour \<Rightarrow> string \<Rightarrow> out list" where
  "report a c message = (if \<not> opt_quiet a then [Line c message] else [])"

definition report_globals :: "args \<Rightarrow> out list" where
  "report_globals a =
     (let enc_report = (if truthy (opt_encode a) then ''encoding='' @ fmt (opt_encode a)
                        else ''encoding not set'')
      in report a Yellow enc_report)"

text \<open>
  \<^verbatim>\<open>report_filenames\<close> takes one file name or a list of them, and wraps the one.
\<close>

datatype filenames = One "string option" | Many "string list"

fun as_list :: "filenames \<Rightarrow> string option list" where
  "as_list (One f) = [f]"
| "as_list (Many fs) = map Some fs"

definition report_filenames :: "args \<Rightarrow> filenames \<Rightarrow> string \<Rightarrow> colour \<Rightarrow> out list" where
  "report_filenames a sparam_files title colorfunc =
     concat (map (\<lambda>sparam_file. report a colorfunc (title @ fmt sparam_file))
                 (as_list sparam_files))"

section \<open>Sorting as Python's \<^verbatim>\<open>sorted\<close> does\<close>

text \<open>
  Strings are compared by code point, a proper prefix first. \<^verbatim>\<open>sorted\<close> compares keys
  with \<^verbatim>\<open><\<close> only; that comparison raises TypeError unless both keys are integers or
  both are strings.
\<close>

fun str_lt :: "string \<Rightarrow> string \<Rightarrow> bool" where
  "str_lt [] [] = False"
| "str_lt [] (y # ys) = True"
| "str_lt (x # xs) [] = False"
| "str_lt (x # xs) (y # ys) =
     (if (of_char x :: nat) < of_char y then True
      else if (of_char y :: nat) < of_char x then False
      else str_lt xs ys)"

fun py_lt :: "pyval \<Rightarrow> pyval \<Rightarrow> error + bool" where
  "py_lt (PInt i) (PInt j) = Inr (i < j)"
| "py_lt (PStr s) (PStr t) = Inr (str_lt s t)"
| "py_lt _ _ = Inl TypeError"

text \<open>
  \<^verbatim>\<open>sorted(xs, key=f)\<close> computes every key first, then sorts stably: elements with
  equal keys keep their order. The model is the stable insertion sort: an element goes
  in front of the already sorted elements behind it, past those whose key is smaller.
\<close>

fun keyed :: "('a \<Rightarrow> error + pyval) \<Rightarrow> 'a list \<Rightarrow> error + (pyval \<times> 'a) list" where
  "keyed f [] = Inr []"
| "keyed f (x # xs) =
     (case f x of
        Inl e \<Rightarrow> Inl e
      | Inr k \<Rightarrow> (case keyed f xs of Inl e \<Rightarrow> Inl e | Inr ks \<Rightarrow> Inr ((k, x) # ks)))"

fun insert_keyed :: "pyval \<times> 'a \<Rightarrow> (pyval \<times> 'a) list \<Rightarrow> error + (pyval \<times> 'a) list" where
  "insert_keyed x [] = Inr [x]"
| "insert_keyed x (y # ys) =
     (case py_lt (fst y) (fst x) of
        Inl e \<Rightarrow> Inl e
      | Inr True \<Rightarrow> (case insert_keyed x ys of Inl e \<Rightarrow> Inl e | Inr zs \<Rightarrow> Inr (y # zs))
      | Inr False \<Rightarrow> Inr (x # y # ys))"

fun sort_keyed :: "(pyval \<times> 'a) list \<Rightarrow> error + (pyval \<times> 'a) list" where
  "sort_keyed [] = Inr []"
| "sort_keyed (x # xs) =
     (case sort_keyed xs of Inl e \<Rightarrow> Inl e | Inr ys \<Rightarrow> insert_keyed x ys)"

definition py_sorted :: "('a \<Rightarrow> error + pyval) \<Rightarrow> 'a list \<Rightarrow> error + 'a list" where
  "py_sorted f xs =
     (case keyed f xs of
        Inl e \<Rightarrow> Inl e
      | Inr ks \<Rightarrow> (case sort_keyed ks of Inl e \<Rightarrow> Inl e | Inr ys \<Rightarrow> Inr (map snd ys)))"

subsection \<open>Tuples\<close>

text \<open>
  A row of a table is a tuple of cells, here a list. The attributes of a tuple object
  are those of \<^verbatim>\<open>dir(tuple)\<close>; \<^verbatim>\<open>getattr(x, name, default)\<close> gives the default for
  every other name.
\<close>

definition tuple_attrs :: "string list" where
  "tuple_attrs =
     [''__add__'', ''__class__'', ''__class_getitem__'', ''__contains__'', ''__delattr__'',
      ''__dir__'', ''__doc__'', ''__eq__'', ''__format__'', ''__ge__'', ''__getattribute__'',
      ''__getitem__'', ''__getnewargs__'', ''__getstate__'', ''__gt__'', ''__hash__'',
      ''__init__'', ''__init_subclass__'', ''__iter__'', ''__le__'', ''__len__'', ''__lt__'',
      ''__mul__'', ''__ne__'', ''__new__'', ''__reduce__'', ''__reduce_ex__'', ''__repr__'',
      ''__rmul__'', ''__setattr__'', ''__sizeof__'', ''__str__'', ''__subclasshook__'',
      ''count'', ''index'']"

definition getattr_tuple :: "pyval list \<Rightarrow> string \<Rightarrow> pyval \<Rightarrow> pyval" where
  "getattr_tuple x attr dflt =
     (if attr \<in> set tuple_attrs then PObj (''<attribute '' @ attr @ '' of tuple object>'')
      else dflt)"

text \<open>\<^verbatim>\<open>x[i]\<close> raises IndexError out of range.\<close>

fun item :: "'a list \<Rightarrow> nat \<Rightarrow> error + 'a" where
  "item [] i = Inl IndexError"
| "item (x # xs) 0 = Inr x"
| "item (x # xs) (Suc i) = item xs i"

section \<open>The library \<^verbatim>\<open>rsparam\<close> as the command line module uses it\<close>

text \<open>
  The classes of the library's entries are declared outside \<^verbatim>\<open>cli.py\<close>. The module
  reads by name the attributes \<^verbatim>\<open>guid\<close>, \<^verbatim>\<open>name\<close>, \<^verbatim>\<open>datatype\<close>, \<^verbatim>\<open>group\<close> and
  \<^verbatim>\<open>lineno\<close> of a parameter and \<^verbatim>\<open>guid\<close>, \<^verbatim>\<open>name\<close> and \<^verbatim>\<open>lineno\<close> of a
  group; the fields carry the prefix \<open>sp_\<close> or \<open>spg_\<close> to keep the two records apart.
\<close>

record SharedParam =
  sp_guid :: string
  sp_name :: string
  sp_datatype :: string
  sp_group :: pyval
  sp_lineno :: int

record SharedParamGroup =
  spg_guid :: pyval
  spg_name :: string
  spg_lineno :: int

text \<open>
  \<^verbatim>\<open>SharedParamEntries\<close>, the pair the library returns: lists of entries from
  \<^verbatim>\<open>find\<close> and \<^verbatim>\<open>compare\<close>, lists of lists of entries from \<^verbatim>\<open>find_duplicates\<close>.
\<close>

record ('g, 'p) SharedParamEntries =
  spe_groups :: "'g list"
  spe_params :: "'p list"

text \<open>
  The functions of the library that the module calls, taken as parameters: each may
  raise. The first argument is the file name, the others are the keyword arguments the
  module passes. The last two fields stand for the declarations of the two classes:
  they give the value of every attribute of an entry other than those above (one the
  class declares, or one that every object has, as \<^verbatim>\<open>__class__\<close>), and \<open>None\<close> for a
  name that is no attribute of it.
\<close>

record rsparam =
  lib_get_params :: "string option \<Rightarrow> string option \<Rightarrow> error + SharedParam list"
  lib_get_paramgroups :: "string option \<Rightarrow> string option \<Rightarrow> error + SharedParamGroup list"
  lib_find_duplicates ::
    "string option \<Rightarrow> bool \<Rightarrow> error + (SharedParamGroup list, SharedParam list) SharedParamEntries"
  lib_find ::
    "string option \<Rightarrow> string option \<Rightarrow> string option
       \<Rightarrow> error + (SharedParamGroup, SharedParam) SharedParamEntries"
  lib_compare ::
    "string option \<Rightarrow> string option \<Rightarrow> string option
       \<Rightarrow> error + ((SharedParamGroup, SharedParam) SharedParamEntries
                  \<times> (SharedParamGroup, SharedParam) SharedParamEntries)"
  lib_param_attr :: "SharedParam \<Rightarrow> string \<Rightarrow> pyval option"
  lib_group_attr :: "SharedParamGroup \<Rightarrow> string \<Rightarrow> pyval option"

text \<open>
  \<^verbatim>\<open>getattr(sp, attr, None)\<close> on an entry: the value of the attribute, and
  \<^verbatim>\<open>None\<close> when the entry has no attribute of this name.
\<close>

definition getattr_param :: "rsparam \<Rightarrow> SharedParam \<Rightarrow> string \<Rightarrow> pyval" where
  "getattr_param lib sp attr =
     (if attr = ''guid'' then PStr (sp_guid sp)
      else if attr = ''name'' then PStr (sp_name sp)
      else if attr = ''datatype'' then PStr (sp_datatype sp)
      else if attr = ''group'' then sp_group sp
      else if attr = ''lineno'' then PInt (sp_lineno sp)
      else (case lib_param_attr lib sp attr of None \<Rightarrow> PNone | Some v \<Rightarrow> v))"

definition getattr_group :: "rsparam \<Rightarrow> SharedParamGroup \<Rightarrow> string \<Rightarrow> pyval" where
  "getattr_group lib spg attr =
     (if attr = ''guid'' then spg_guid spg
      else if attr = ''name'' then PStr (spg_name spg)
      else if attr = ''lineno'' then PInt (spg_lineno spg)
      else (case lib_group_attr lib spg attr of None \<Rightarrow> PNone | Some v \<Rightarrow> v))"

fun split_on :: "char \<Rightarrow> string \<Rightarrow> string list" where
  "split_on c [] = [[]]"
| "split_on c (x # xs) =
     (if x = c then [] # split_on c xs
      else (case split_on c xs of [] \<Rightarrow> [[x]] | w # ws \<Rightarrow> (x # w) # ws))"

section \<open>Listing\<close>

definition prepend :: "out list \<Rightarrow> 'a run \<Rightarrow> 'a run" where
  "prepend os r = (os @ fst r, snd r)"

definition total_line :: "nat \<Rightarrow> string" where
  "total_line n = ''Total of '' @ str_int (int n) @ '' items.''"

definition param_columns :: "args \<Rightarrow> string list" where
  "param_columns a =
     (if truthy (opt_columns a) then split_on CHR '':'' (fmt (opt_columns a))
      else [''guid'', ''name'', ''datatype'', ''group'', ''lineno''])"

definition param_rows :: "args \<Rightarrow> rsparam \<Rightarrow> SharedParam list \<Rightarrow> pyval list list" where
  "param_rows a lib sparams = map (\<lambda>sp. map (getattr_param lib sp) (param_columns a)) sparams"

definition name_key :: "pyval list \<Rightarrow> error + pyval" where
  "name_key x = Inr (getattr_tuple x ''name'' (PInt 0))"

definition param_headers :: "string list" where
  "param_headers = [''Guid'', ''Name'', ''Datatype'', ''Group'', ''Line #'']"

text \<open>
  \<^verbatim>\<open>list_params(src_file, sparams=None)\<close>: the parameters are read from the file when
  none (or an empty list) is given, \<^verbatim>\<open>if not sparams\<close>.
\<close>

fun or_read :: "'a list option \<Rightarrow> error + 'a list \<Rightarrow> error + 'a list" where
  "or_read None r = r"
| "or_read (Some []) r = r"
| "or_read (Some (x # xs)) r = Inr (x # xs)"

definition list_params :: "args \<Rightarrow> rsparam \<Rightarrow> string option \<Rightarrow> SharedParam list option \<Rightarrow> unit run" where
  "list_params a lib src_file sparams =
     (case or_read sparams (lib_get_params lib src_file (opt_filter a)) of
        Inl e \<Rightarrow> raised e
      | Inr sps \<Rightarrow>
          (case (if opt_sortby a = Some ''group'' then py_sorted name_key (param_rows a lib sps)
                 else Inr (param_rows a lib sps)) of
             Inl e \<Rightarrow> raised e
           | Inr sparamdata \<Rightarrow>
               returned (Table sparamdata param_headers
                         # report a Plain (total_line (length sparamdata)))))"

definition group_columns :: "args \<Rightarrow> string list" where
  "group_columns a =
     (if truthy (opt_columns a) then split_on CHR '':'' (fmt (opt_columns a))
      else [''guid'', ''name'', ''lineno''])"

definition group_rows :: "args \<Rightarrow> rsparam \<Rightarrow> SharedParamGroup list \<Rightarrow> pyval list list" where
  "group_rows a lib spgroups =
     map (\<lambda>spg. map (getattr_group lib spg) (group_columns a)) spgroups"

definition group_headers :: "string list" where
  "group_headers = [''Id'', ''Description'', ''Line #'']"

definition list_groups :: "args \<Rightarrow> rsparam \<Rightarrow> string option \<Rightarrow> SharedParamGroup list option \<Rightarrow> unit run" where
  "list_groups a lib src_file spgroups =
     (case or_read spgroups (lib_get_paramgroups lib src_file (opt_encode a)) of
        Inl e \<Rightarrow> raised e
      | Inr spgs \<Rightarrow>
          returned (Table (group_rows a lib spgs) group_headers
                    # report a Plain (total_line (length (group_rows a lib spgs)))))"

definition list_all_cli :: "args \<Rightarrow> rsparam \<Rightarrow> string option \<Rightarrow> unit run" where
  "list_all_cli a lib src_file =
     and_then (list_groups a lib src_file None) (\<lambda>_. list_params a lib src_file None)"

section \<open>Reporting duplicates\<close>

definition nl :: char where
  "nl = CHR 0x0A"

definition dupl_title :: "string \<Rightarrow> string \<Rightarrow> string" where
  "dupl_title kind duplparam = nl # ''duplicate '' @ kind @ '' by '' @ duplparam @ '':''"

definition dupl_banner :: "string \<Rightarrow> pyval \<Rightarrow> out" where
  "dupl_banner duplparam v = Line Yellow (nl # ''duplicates by '' @ duplparam @ '': '' @ py_str v)"

text \<open>\<^verbatim>\<open>dupldata[0][0]\<close>: the first cell of the first row of the buffer.\<close>

definition first_cell :: "pyval list list \<Rightarrow> error + pyval" where
  "first_cell dupldata = bind_err (item dupldata 0) (\<lambda>row. item row 0)"

definition param_dupl_row :: "bool \<Rightarrow> SharedParam \<Rightarrow> pyval list" where
  "param_dupl_row byname d =
     [if byname then PStr (sp_name d) else PStr (sp_guid d),
      if byname then PStr (sp_guid d) else PStr (sp_name d),
      PStr (sp_datatype d), sp_group d, PInt (sp_lineno d)]"

definition param_dupl_headers :: "bool \<Rightarrow> string list" where
  "param_dupl_headers byname =
     [if byname then ''Name'' else ''Guid'', if byname then ''Guid'' else ''Name'',
      ''Datatype'', ''Group'', ''Line #'']"

text \<open>The key \<^verbatim>\<open>lambda x: str(x[3])\<close>.\<close>

definition group_key :: "pyval list \<Rightarrow> error + pyval" where
  "group_key x = bind_err (item x 3) (\<lambda>c. Inr (PStr (py_str c)))"

text \<open>
  The loop of \<^verbatim>\<open>find_param_dupls\<close> over the lists of duplicates. The buffer
  \<open>dupldata\<close> is the loop's state: the rows of the list are appended, the banner is
  printed from the first cell of the buffer, the buffer is replaced by its sorted copy
  under \<^verbatim>\<open>--sortby group\<close>, and the buffer is printed.
\<close>

fun param_dupl_loop ::
  "args \<Rightarrow> bool \<Rightarrow> string \<Rightarrow> pyval list list \<Rightarrow> SharedParam list list \<Rightarrow> unit run" where
  "param_dupl_loop a byname duplparam dupldata [] = returned []"
| "param_dupl_loop a byname duplparam dupldata (dlist # rest) =
     (let appended = dupldata @ map (param_dupl_row byname) dlist in
      case first_cell appended of
        Inl e \<Rightarrow> raised e
      | Inr v \<Rightarrow>
          (case (if opt_sortby a = Some ''group'' then py_sorted group_key appended
                 else Inr appended) of
             Inl e \<Rightarrow> ([dupl_banner duplparam v], Inl e)
           | Inr sorted_data \<Rightarrow>
               prepend [dupl_banner duplparam v, Table sorted_data (param_dupl_headers byname)]
                 (param_dupl_loop a byname duplparam sorted_data rest)))"

definition find_param_dupls :: "args \<Rightarrow> rsparam \<Rightarrow> string option \<Rightarrow> unit run" where
  "find_param_dupls a lib src_file =
     (let byname = opt_byname a in
      case lib_find_duplicates lib src_file byname of
        Inl e \<Rightarrow> raised e
      | Inr spentries \<Rightarrow>
          (let duplparam = (if byname then ''name'' else ''guid'') in
           prepend (report a Yellow (dupl_title ''params'' duplparam))
             (param_dupl_loop a byname duplparam [] (spe_params spentries))))"

definition group_dupl_row :: "bool \<Rightarrow> SharedParamGroup \<Rightarrow> pyval list" where
  "group_dupl_row byname d =
     [if byname then PStr (spg_name d) else spg_guid d,
      if byname then spg_guid d else PStr (spg_name d),
      PInt (spg_lineno d)]"

definition group_dupl_headers :: "bool \<Rightarrow> string list" where
  "group_dupl_headers byname =
     [if byname then ''Name'' else ''Guid'', if byname then ''Guid'' else ''Name'', ''Line #'']"

fun group_dupl_loop ::
  "bool \<Rightarrow> string \<Rightarrow> pyval list list \<Rightarrow> SharedParamGroup list list \<Rightarrow> unit run" where
  "group_dupl_loop byname duplparam dupldata [] = returned []"
| "group_dupl_loop byname duplparam dupldata (dlist # rest) =
     (let appended = dupldata @ map (group_dupl_row byname) dlist in
      case first_cell appended of
        Inl e \<Rightarrow> raised e
      | Inr v \<Rightarrow>
          prepend [dupl_banner duplparam v, Table appended (group_dupl_headers byname)]
            (group_dupl_loop byname duplparam appended rest))"

definition find_group_dupls :: "args \<Rightarrow> rsparam \<Rightarrow> string option \<Rightarrow> unit run" where
  "find_group_dupls a lib src_file =
     (let byname = opt_byname a in
      case lib_find_duplicates lib src_file byname of
        Inl e \<Rightarrow> raised e
      | Inr spentries \<Rightarrow>
          (let duplparam = (if byname then ''name'' else ''guid'') in
           prepend (report a Yellow (dupl_title ''groups'' duplparam))
             (group_dupl_loop byname duplparam [] (spe_groups spentries))))"

definition find_all_dupls :: "args \<Rightarrow> rsparam \<Rightarrow> string option \<Rightarrow> unit run" where
  "find_all_dupls a lib src_file =
     and_then (find_group_dupls a lib src_file) (\<lambda>_. find_param_dupls a lib src_file)"

section \<open>Searching and comparing\<close>

definition find_matching :: "args \<Rightarrow> rsparam \<Rightarrow> string option \<Rightarrow> unit run" where
  "find_matching a lib src_file =
     (let search_str = arg_regex_pattern a in
      case lib_find lib src_file search_str (opt_encode a) of
        Inl e \<Rightarrow> raised e
      | Inr spentries \<Rightarrow>
          and_then
            (if spe_groups spentries \<noteq> [] \<and> \<not> opt_params a
             then prepend (report a Yellow (nl # ''groups matching: '' @ fmt search_str))
                    (list_groups a lib None (Some (spe_groups spentries)))
             else returned [])
            (\<lambda>_. if spe_params spentries \<noteq> [] \<and> \<not> opt_groups a
                  then prepend (report a Yellow (nl # ''params matching: '' @ fmt search_str))
                         (list_params a lib None (Some (spe_params spentries)))
                  else returned []))"

definition comp_cli :: "args \<Rightarrow> rsparam \<Rightarrow> string option \<Rightarrow> string option \<Rightarrow> unit run" where
  "comp_cli a lib first_file second_file =
     (case lib_compare lib first_file second_file (opt_encode a) of
        Inl e \<Rightarrow> raised e
      | Inr (uniq1, uniq2) \<Rightarrow>
          and_then
            (if spe_groups uniq1 \<noteq> [] \<and> \<not> opt_params a \<and> \<not> opt_second a
             then prepend (report a Yellow (nl # ''unique groups in first''))
                    (list_groups a lib None (Some (spe_groups uniq1)))
             else returned [])
          (\<lambda>_. and_then
            (if spe_groups uniq2 \<noteq> [] \<and> \<not> opt_params a \<and> \<not> opt_first a
             then prepend (report a Yellow (nl # ''unique groups in second''))
                    (list_groups a lib None (Some (spe_groups uniq2)))
             else returned [])
          (\<lambda>_. and_then
            (if spe_params uniq1 \<noteq> [] \<and> \<not> opt_groups a \<and> \<not> opt_second a
             then prepend (report a Yellow (nl # ''unique parameters in first''))
                    (list_params a lib None (Some (spe_params uniq1)))
             else returned [])
          (\<lambda>_.
             if spe_params uniq2 \<noteq> [] \<and> \<not> opt_groups a \<and> \<not> opt_first a
             then prepend (report a Yellow (nl # ''unique parameters in second''))
                    (list_params a lib None (Some (spe_params uniq2)))
             else returned []))))"

section \<open>Merging and sorting\<close>

text \<open>
  \<^verbatim>\<open>def merge(dest_file, source_files): raise NotImplementedError()\<close> and
  \<^verbatim>\<open>def sort(source_file): raise NotImplementedError()\<close>, each as it is called with
  positional values and keyword arguments: the arguments are bound, then the body runs.
\<close>

definition merge_cli :: "'v list \<Rightarrow> (string \<times> 'v) list \<Rightarrow> error + 'r" where
  "merge_cli pos kws =
     bind_err (bind_args [''dest_file'', ''source_files''] pos kws) (\<lambda>vs. Inl NotImplementedError)"

definition sort_cli :: "'v list \<Rightarrow> (string \<times> 'v) list \<Rightarrow> error + 'r" where
  "sort_cli pos kws =
     bind_err (bind_args [''source_file''] pos kws) (\<lambda>vs. Inl NotImplementedError)"

section \<open>The entry point\<close>

text \<open>The values \<^verbatim>\<open>main\<close> passes to \<^verbatim>\<open>merge\<close> and \<^verbatim>\<open>sort\<close>.\<close>

datatype pyarg = AStr "string option" | AList "string list" | ABool bool

definition main :: "args \<Rightarrow> rsparam \<Rightarrow> unit run" where
  "main a lib =
     prepend (report_globals a)
       (and_then
          (if cmd_list a then
             prepend (report_filenames a (One (arg_src_file a)) ''source file: '' Blue)
               (if opt_groups a \<and> \<not> opt_params a then list_groups a lib (arg_src_file a) None
                else if opt_params a \<and> \<not> opt_groups a then list_params a lib (arg_src_file a) None
                else list_all_cli a lib (arg_src_file a))
           else if cmd_find a then
             prepend (report_filenames a (One (arg_src_file a)) ''source file: '' Blue)
               (if cmd_dupl a then
                  (if opt_all a then find_all_dupls a lib (arg_src_file a)
                   else if opt_params a then find_param_dupls a lib (arg_src_file a)
                   else if opt_groups a then find_group_dupls a lib (arg_src_file a)
                   else returned [])
                else find_matching a lib (arg_src_file a))
           else if cmd_comp a then
             prepend (report_filenames a (One (arg_first_file a)) ''first file: '' Blue
                      @ report_filenames a (One (arg_second_file a)) ''second file: '' Blue)
               (comp_cli a lib (arg_first_file a) (arg_second_file a))
           else if cmd_merge a then
             prepend (report_filenames a (One (arg_dest_file a)) ''destination file: '' Blue
                      @ report_filenames a (Many (arg_src_files a)) ''source file: '' Blue)
               (lift_err (merge_cli [AStr (arg_dest_file a), AList (arg_src_files a)] []))
           else if cmd_sort a then
             prepend (report_filenames a (One (arg_src_file a)) ''source file: '' Blue)
               (lift_err (sort_cli [AStr (arg_src_file a)] [(''byname'', ABool (opt_byname a))]))
           else returned [])
          (\<lambda>_. returned (report a Plain [])))"

section \<open>The data model of the specification\<close>

text \<open>
  The records of the specification's data model. The fields of a group carry the
  prefix \<open>pg_\<close>, those of a parameter definition \<open>pd_\<close>.
\<close>

record ParameterGroup =
  pg_id :: int
  pg_name :: string
  pg_line_number :: nat

record ParameterDefinition =
  pd_guid :: string
  pd_name :: string
  pd_data_type :: string
  pd_group_id :: int
  pd_data_category :: string
  pd_visible :: string
  pd_description :: string
  pd_user_modifiable :: string
  pd_line_number :: nat

record File =
  groups :: "ParameterGroup list"
  params :: "ParameterDefinition list"

text \<open>A comparison key: the id of a group, the GUID of a parameter, or a name.\<close>

datatype key = KId int | KGuid string | KName string

record MergeConflict =
  mc_key :: key
  mc_source_index :: nat

section \<open>What the duplicate reports are expected to print\<close>

text \<open>
  \<open>accumulated acc ds\<close> lists the buffer after each pass of a loop that appends the
  lists \<open>ds\<close> to a buffer starting as \<open>acc\<close> and never clears it. \<open>dupl_outputs\<close> is
  the output of a loop that prints, for each of these buffers, one banner with the
  value \<open>v\<close> and the buffer as a table. \<open>first_key\<close> is the first cell of the first
  row of the first list.
\<close>

fun accumulated :: "'a list \<Rightarrow> 'a list list \<Rightarrow> 'a list list" where
  "accumulated acc [] = []"
| "accumulated acc (d # ds) = (acc @ d) # accumulated (acc @ d) ds"

fun printed_lines :: "out list \<Rightarrow> out list" where
  "printed_lines [] = []"
| "printed_lines (Line c s # os) = Line c s # printed_lines os"
| "printed_lines (Table rows hs # os) = printed_lines os"

definition dupl_outputs :: "string \<Rightarrow> pyval \<Rightarrow> string list \<Rightarrow> pyval list list list \<Rightarrow> out list" where
  "dupl_outputs duplparam v headers buffers =
     concat (map (\<lambda>buffer. [dupl_banner duplparam v, Table buffer headers]) buffers)"

definition first_key :: "pyval list list list \<Rightarrow> pyval" where
  "first_key buffers = (case buffers of (((v # cells) # rows) # buffers') \<Rightarrow> v | _ \<Rightarrow> PNone)"

text \<open>
  Under \<^verbatim>\<open>--sortby group\<close> the buffer of parameters is sorted in every pass, by
  the key \<^verbatim>\<open>str(x[3])\<close>, the text of the group; \<open>group_text\<close> is this key.
  \<open>sorted_table rowss k\<close> is the rows of the first \<open>k\<close> lists sorted by it, rows with
  the same text in the order of the lists (\<open>sort_key\<close> is the stable insertion sort of
  the library, on the order of strings by code point). \<open>banner_cell\<close> is the first cell
  of the first row of a buffer. \<open>sorted_dupl_outputs\<close> is the output of a loop that in
  pass \<open>k\<close> prints a banner with the first cell of the sorted rows of the lists before
  followed by the rows of list \<open>k\<close>, and then the sorted rows of the lists up to \<open>k\<close>.
\<close>

definition group_text :: "pyval list \<Rightarrow> string" where
  "group_text x = (case item x 3 of Inl e \<Rightarrow> [] | Inr c \<Rightarrow> py_str c)"

definition sorted_table :: "pyval list list list \<Rightarrow> nat \<Rightarrow> pyval list list" where
  "sorted_table rowss k = sort_key group_text (concat (take k rowss))"

definition banner_cell :: "pyval list list \<Rightarrow> pyval" where
  "banner_cell buffer = (case buffer of (v # cells) # rows \<Rightarrow> v | _ \<Rightarrow> PNone)"

definition sorted_dupl_outputs :: "string \<Rightarrow> string list \<Rightarrow> pyval list list list \<Rightarrow> out list" where
  "sorted_dupl_outputs duplparam headers rowss =
     concat (map (\<lambda>k. [dupl_banner duplparam (banner_cell (sorted_table rowss k @ rowss ! k)),
                        Table (sorted_table rowss (Suc k)) headers])
                 [0..<length rowss])"

section \<open>The query engine of the specification\<close>

text \<open>
  Modelled from the spec: \<^verbatim>\<open>find_duplicates\<close> and \<^verbatim>\<open>compare\<close> of the library
  \<^verbatim>\<open>rsparam\<close>, whose module is not among the sources; the command line module only
  calls them. The definitions follow sections 3 and 4.2 of the specification.

  The comparison key of a group is its id, that of a parameter its GUID, and the name
  of either when comparing by name.
\<close>

definition group_key_of :: "bool \<Rightarrow> ParameterGroup \<Rightarrow> key" where
  "group_key_of by_name g = (if by_name then KName (pg_name g) else KId (pg_id g))"

definition param_key_of :: "bool \<Rightarrow> ParameterDefinition \<Rightarrow> key" where
  "param_key_of by_name p = (if by_name then KName (pd_name p) else KGuid (pd_guid p))"

text \<open>
  Duplicate detection groups the records by key, in one pass over the file: a record
  goes to the end of the list of its key, and a key seen for the first time gets a new
  list after those of the keys seen before. The duplicate set keeps the keys with two
  or more records.
\<close>

fun bucket_insert :: "'k \<Rightarrow> 'r \<Rightarrow> ('k \<times> 'r list) list \<Rightarrow> ('k \<times> 'r list) list" where
  "bucket_insert k r [] = [(k, [r])]"
| "bucket_insert k r ((k', rs) # bs) =
     (if k = k' then (k', rs @ [r]) # bs else (k', rs) # bucket_insert k r bs)"

definition buckets :: "('r \<Rightarrow> 'k) \<Rightarrow> 'r list \<Rightarrow> ('k \<times> 'r list) list" where
  "buckets f rs = fold (\<lambda>r bs. bucket_insert (f r) r bs) rs []"

definition duplicated :: "('k \<times> 'r list) list \<Rightarrow> ('k \<times> 'r list) list" where
  "duplicated bs = filter (\<lambda>b. 2 \<le> length (snd b)) bs"

record DuplicateSet =
  dup_groups :: "(key \<times> ParameterGroup list) list"
  dup_params :: "(key \<times> ParameterDefinition list) list"

definition find_duplicates :: "File \<Rightarrow> bool \<Rightarrow> DuplicateSet" where
  "find_duplicates file by_name =
     \<lparr> dup_groups = duplicated (buckets (group_key_of by_name) (groups file)),
       dup_params = duplicated (buckets (param_key_of by_name) (params file)) \<rparr>"

text \<open>The keys of a list in the order of their first occurrence.\<close>

definition first_keys :: "'k list \<Rightarrow> 'k list" where
  "first_keys ks = rev (remdups (rev ks))"

text \<open>
  Comparison keeps, for each file, the records whose key no record of the other file
  has; groups and parameters are compared apart, each by its own keys.
\<close>

record Unique =
  only_groups :: "ParameterGroup list"
  only_params :: "ParameterDefinition list"

definition without_counterpart :: "('r \<Rightarrow> key) \<Rightarrow> 'r list \<Rightarrow> 'r list \<Rightarrow> 'r list" where
  "without_counterpart f rs others =
     (let other_keys = map f others in filter (\<lambda>r. f r \<notin> set other_keys) rs)"

definition compare :: "File \<Rightarrow> File \<Rightarrow> bool \<Rightarrow> Unique \<times> Unique" where
  "compare file_a file_b by_name =
     (\<lparr> only_groups = without_counterpart (group_key_of by_name) (groups file_a) (groups file_b),
        only_params = without_counterpart (param_key_of by_name) (params file_a) (params file_b) \<rparr>,
      \<lparr> only_groups = without_counterpart (group_key_of by_name) (groups file_b) (groups file_a),
        only_params = without_counterpart (param_key_of by_name) (params file_b) (params file_a) \<rparr>)"

section \<open>Search by regular expression\<close>

text \<open>
  Modelled from the spec: \<^verbatim>\<open>find\<close> of the library \<^verbatim>\<open>rsparam\<close>, whose module is not
  among the sources; the command line module only calls it. By section 4.2 a group or
  a parameter matches if the pattern matches its name, and an unparseable pattern is a
  PatternError. The engine of regular expressions is a parameter: it compiles a pattern
  to a predicate on names, or fails.
\<close>

type_synonym engine = "string \<Rightarrow> (string \<Rightarrow> bool) option"

definition find_entries ::
  "engine \<Rightarrow> File \<Rightarrow> string \<Rightarrow> error + (ParameterGroup list \<times> ParameterDefinition list)" where
  "find_entries engine file pattern =
     (case engine pattern of
        None \<Rightarrow> Inl (PatternError pattern)
      | Some matches \<Rightarrow>
          Inr (filter (\<lambda>g. matches (pg_name g)) (groups file),
               filter (\<lambda>p. matches (pd_name p)) (params file)))"

text \<open>
  An engine for the examples: the fragment of regular expressions with literal
  characters, \<^verbatim>\<open>.\<close> for any character, a postfix \<^verbatim>\<open>*\<close>, \<^verbatim>\<open>^\<close> at the start and
  \<^verbatim>\<open>$\<close> at the end. Characters are compared as they are, so matching is case
  sensitive. A pattern matches a name if it matches at some position of it. A
  \<^verbatim>\<open>*\<close> with nothing to repeat makes the pattern unparseable.
\<close>

fun matchhere :: "string \<Rightarrow> string \<Rightarrow> bool"
  and matchstar :: "char \<Rightarrow> string \<Rightarrow> string \<Rightarrow> bool" where
  "matchhere [] text = True"
| "matchhere [c] text =
     (if c = CHR ''$'' then text = []
      else (case text of [] \<Rightarrow> False | x # t \<Rightarrow> c = CHR ''.'' \<or> c = x))"
| "matchhere (c # d # re) text =
     (if d = CHR ''*'' then matchstar c re text
      else (case text of [] \<Rightarrow> False | x # t \<Rightarrow> (c = CHR ''.'' \<or> c = x) \<and> matchhere (d # re) t))"
| "matchstar c re [] = matchhere re []"
| "matchstar c re (x # t) =
     (matchhere re (x # t) \<or> ((c = CHR ''.'' \<or> c = x) \<and> matchstar c re t))"

fun suffixes_of :: "'a list \<Rightarrow> 'a list list" where
  "suffixes_of [] = [[]]"
| "suffixes_of (x # xs) = (x # xs) # suffixes_of xs"

definition re_search :: "string \<Rightarrow> string \<Rightarrow> bool" where
  "re_search pattern text =
     (case pattern of
        [] \<Rightarrow> True
      | c # re \<Rightarrow> if c = CHR ''^'' then matchhere re text
                  else list_ex (matchhere (c # re)) (suffixes_of text))"

fun unparseable :: "string \<Rightarrow> bool" where
  "unparseable [] = False"
| "unparseable [c] = (c = CHR ''*'')"
| "unparseable (c # d # re) =
     (c = CHR ''*'' \<or> (c = CHR ''^'' \<and> d = CHR ''*'')
      \<or> list_ex (\<lambda>(x, y). x = CHR ''*'' \<and> y = CHR ''*'') (zip (d # re) re))"

definition re_fragment :: engine where
  "re_fragment pattern = (if unparseable pattern then None else Some (re_search pattern))"

section \<open>The parser of the specification\<close>

text \<open>
  Modelled from the spec: \<^verbatim>\<open>parse\<close>, the parser of the library \<^verbatim>\<open>rsparam\<close>, whose
  module is not among the sources. The definitions follow section 4.1: the bytes are
  decoded under the given encoding, the text is read line by line, a line is split at
  tabs and classified by its first field, and the first malformed line ends the parse
  (section 7 recommends to abort on the first error). The File of section 3 has no
  field for the format version, so the version token of a header line is not kept.

  A byte is a \<open>char\<close>, which has eight bits. The codec is a parameter: it gives the
  text of the bytes under an encoding, or fails.
\<close>

type_synonym byte = char

type_synonym decoder = "string \<Rightarrow> byte list \<Rightarrow> string option"

text \<open>
  An integer is an optional minus sign and one or more decimal digits.
\<close>

definition tab :: char where
  "tab = CHR 0x09"

definition is_digit :: "char \<Rightarrow> bool" where
  "is_digit c = (c \<in> set ''0123456789'')"

definition digit_value :: "char \<Rightarrow> nat" where
  "digit_value c = of_char c - 48"

definition nat_of_digits :: "string \<Rightarrow> nat" where
  "nat_of_digits s = foldl (\<lambda>n c. 10 * n + digit_value c) 0 s"

definition parse_nat :: "string \<Rightarrow> nat option" where
  "parse_nat s = (if s \<noteq> [] \<and> list_all is_digit s then Some (nat_of_digits s) else None)"

definition parse_int :: "string \<Rightarrow> int option" where
  "parse_int s =
     (case s of
        [] \<Rightarrow> None
      | c # cs \<Rightarrow>
          if c = CHR ''-'' then map_option (\<lambda>n. - int n) (parse_nat cs)
          else map_option int (parse_nat s))"

text \<open>
  A GUID is 32 hexadecimal digits in groups of 8, 4, 4, 4 and 12 separated by hyphens,
  in either case; its canonical form is in lower case.
\<close>

definition is_hex :: "char \<Rightarrow> bool" where
  "is_hex c = (c \<in> set ''0123456789abcdefABCDEF'')"

definition lower_hex :: "char \<Rightarrow> char" where
  "lower_hex c = (case map_of (zip ''ABCDEF'' ''abcdef'') c of None \<Rightarrow> c | Some l \<Rightarrow> l)"

definition parse_guid :: "string \<Rightarrow> string option" where
  "parse_guid s =
     (let parts = split_on CHR ''-'' s
      in if map length parts = [8, 4, 4, 4, 12] \<and> list_all (list_all is_hex) parts
         then Some (map lower_hex s) else None)"

text \<open>
  A \<^verbatim>\<open>GROUP\<close> line needs three fields (the keyword, the id, the name), a
  \<^verbatim>\<open>PARAM\<close> line five (the keyword, the GUID, the name, the data type, the group
  id); the fields after them are optional and empty when absent. A line with any other
  first field, a blank line among them, is skipped.
\<close>

definition field :: "string list \<Rightarrow> nat \<Rightarrow> string" where
  "field fs i = (if i < length fs then fs ! i else [])"

datatype entry = GroupEntry ParameterGroup | ParamEntry ParameterDefinition

definition parse_group :: "nat \<Rightarrow> string \<Rightarrow> string list \<Rightarrow> error + entry option" where
  "parse_group n raw fs =
     (if length fs < 3 then Inl (MalformedLineError n raw)
      else (case parse_int (field fs 1) of
              None \<Rightarrow> Inl (MalformedLineError n raw)
            | Some i \<Rightarrow>
                Inr (Some (GroupEntry
                  \<lparr> pg_id = i, pg_name = field fs 2, pg_line_number = n \<rparr>))))"

definition parse_param :: "nat \<Rightarrow> string \<Rightarrow> string list \<Rightarrow> error + entry option" where
  "parse_param n raw fs =
     (if length fs < 5 then Inl (MalformedLineError n raw)
      else (case parse_guid (field fs 1) of
              None \<Rightarrow> Inl (MalformedLineError n raw)
            | Some g \<Rightarrow>
                (case parse_int (field fs 4) of
                   None \<Rightarrow> Inl (MalformedLineError n raw)
                 | Some gid \<Rightarrow>
                     Inr (Some (ParamEntry
                       \<lparr> pd_guid = g, pd_name = field fs 2, pd_data_type = field fs 3,
                         pd_group_id = gid, pd_data_category = field fs 5,
                         pd_visible = field fs 6, pd_description = field fs 7,
                         pd_user_modifiable = field fs 8, pd_line_number = n \<rparr>)))))"

definition parse_line :: "nat \<Rightarrow> string \<Rightarrow> error + entry option" where
  "parse_line n raw =
     (let fs = split_on tab raw
      in if field fs 0 = ''GROUP'' then parse_group n raw fs
         else if field fs 0 = ''PARAM'' then parse_param n raw fs
         else Inr None)"

fun add_entry :: "entry option \<Rightarrow> File \<Rightarrow> File" where
  "add_entry None file = file"
| "add_entry (Some (GroupEntry g)) file = file \<lparr> groups := groups file @ [g] \<rparr>"
| "add_entry (Some (ParamEntry p)) file = file \<lparr> params := params file @ [p] \<rparr>"

fun parse_lines :: "nat \<Rightarrow> string list \<Rightarrow> File \<Rightarrow> error + File" where
  "parse_lines n [] file = Inr file"
| "parse_lines n (raw # rest) file =
     (case parse_line n raw of
        Inl e \<Rightarrow> Inl e
      | Inr r \<Rightarrow> parse_lines (Suc n) rest (add_entry r file))"

definition parse :: "decoder \<Rightarrow> byte list \<Rightarrow> string \<Rightarrow> error + File" where
  "parse decode bytes encoding =
     (case decode encoding bytes of
        None \<Rightarrow> Inl (DecodeError encoding)
      | Some text \<Rightarrow> parse_lines 1 (split_on nl text) \<lparr> groups = [], params = [] \<rparr>)"

text \<open>
  What makes a line malformed: too few fields for its kind, or a field that has to be
  an integer or a GUID and is not.
\<close>

definition too_few_fields :: "string \<Rightarrow> bool" where
  "too_few_fields raw =
     (let fs = split_on tab raw
      in (field fs 0 = ''GROUP'' \<and> length fs < 3) \<or> (field fs 0 = ''PARAM'' \<and> length fs < 5))"

definition bad_value :: "string \<Rightarrow> bool" where
  "bad_value raw =
     (let fs = split_on tab raw
      in (field fs 0 = ''GROUP'' \<and> 3 \<le> length fs \<and> parse_int (field fs 1) = None)
         \<or> (field fs 0 = ''PARAM'' \<and> 5 \<le> length fs
             \<and> (parse_guid (field fs 1) = None \<or> parse_int (field fs 4) = None)))"

definition malformed :: "string \<Rightarrow> bool" where
  "malformed raw = (too_few_fields raw \<or> bad_value raw)"


section \<open>Inputs of the examples\<close>

definition no_library :: rsparam where
  "no_library =
     \<lparr> lib_get_params = (\<lambda>f g. Inl (LibraryError ''get_params'')),
       lib_get_paramgroups = (\<lambda>f e. Inl (LibraryError ''get_paramgroups'')),
       lib_find_duplicates = (\<lambda>f b. Inl (LibraryError ''find_duplicates'')),
       lib_find = (\<lambda>f p e. Inl (LibraryError ''find'')),
       lib_compare = (\<lambda>f g e. Inl (LibraryError ''compare'')),
       lib_param_attr = (\<lambda>sp attr. None),
       lib_group_attr = (\<lambda>spg attr. None) \<rparr>"

definition base_args :: args where
  "base_args =
     \<lparr> cmd_list = False, cmd_find = False, cmd_dupl = False, cmd_comp = False,
       cmd_merge = False, cmd_sort = False, opt_quiet = False, opt_encode = Some ''utf-8'',
       opt_all = False, opt_params = False, opt_groups = False, opt_sortby = Some ''name'',
       opt_columns = None, opt_filter = None, opt_byname = False, opt_first = False,
       opt_second = False, arg_src_file = None, arg_regex_pattern = None,
       arg_first_file = None, arg_second_file = None, arg_dest_file = None,
       arg_src_files = [] \<rparr>"

definition sort_args :: args where
  "sort_args = base_args \<lparr> cmd_sort := True, arg_src_file := Some ''shared.txt'' \<rparr>"

definition merge_args :: args where
  "merge_args =
     base_args \<lparr> cmd_merge := True, arg_dest_file := Some ''out.txt'',
                 arg_src_files := [''a.txt'', ''b.txt''] \<rparr>"

definition doors_a :: File where
  "doors_a = \<lparr> groups = [\<lparr> pg_id = 1, pg_name = ''Doors'', pg_line_number = 1 \<rparr>], params = [] \<rparr>"

definition doors_b :: File where
  "doors_b = \<lparr> groups = [\<lparr> pg_id = 1, pg_name = ''Windows'', pg_line_number = 1 \<rparr>], params = [] \<rparr>"

definition pdef :: "string \<Rightarrow> string \<Rightarrow> int \<Rightarrow> nat \<Rightarrow> ParameterDefinition" where
  "pdef g n gid ln =
     \<lparr> pd_guid = g, pd_name = n, pd_data_type = ''TEXT'', pd_group_id = gid,
       pd_data_category = [], pd_visible = ''1'', pd_description = [],
       pd_user_modifiable = ''1'', pd_line_number = ln \<rparr>"

definition baa_file :: File where
  "baa_file =
     \<lparr> groups = [\<lparr> pg_id = 1, pg_name = ''One'', pg_line_number = 1 \<rparr>,
                 \<lparr> pg_id = 2, pg_name = ''Two'', pg_line_number = 2 \<rparr>],
       params = [pdef ''g1'' ''B'' 2 3, pdef ''g2'' ''A'' 1 4, pdef ''g3'' ''A'' 2 5] \<rparr>"

definition sparam :: "string \<Rightarrow> string \<Rightarrow> string \<Rightarrow> int \<Rightarrow> SharedParam" where
  "sparam g n grp ln =
     \<lparr> sp_guid = g, sp_name = n, sp_datatype = ''TEXT'', sp_group = PObj grp, sp_lineno = ln \<rparr>"

definition ba_library :: rsparam where
  "ba_library =
     no_library \<lparr> lib_get_params :=
       (\<lambda>f g. Inr [sparam ''guid-1'' ''B'' ''Doors'' 3, sparam ''guid-2'' ''A'' ''Doors'' 4]) \<rparr>"

definition list_group_args :: args where
  "list_group_args =
     base_args \<lparr> cmd_list := True, opt_params := True, opt_sortby := Some ''group'',
                 arg_src_file := Some ''shared.txt'' \<rparr>"

definition dupl_entries :: "(SharedParamGroup list, SharedParam list) SharedParamEntries" where
  "dupl_entries =
          \<lparr> spe_groups =
              [[\<lparr> spg_guid = PStr ''1'', spg_name = ''Doors'', spg_lineno = 2 \<rparr>,
                \<lparr> spg_guid = PStr ''1'', spg_name = ''Walls'', spg_lineno = 3 \<rparr>],
               [\<lparr> spg_guid = PStr ''2'', spg_name = ''Roofs'', spg_lineno = 4 \<rparr>,
                \<lparr> spg_guid = PStr ''2'', spg_name = ''Floors'', spg_lineno = 5 \<rparr>]],
            spe_params =
              [[sparam ''K1'' ''a'' ''Z'' 6, sparam ''K1'' ''b'' ''Z'' 7],
               [sparam ''K2'' ''c'' ''A'' 8, sparam ''K2'' ''d'' ''A'' 9],
               [sparam ''K3'' ''e'' ''M'' 10, sparam ''K3'' ''f'' ''M'' 11]] \<rparr>"

definition dupl_library :: rsparam where
  "dupl_library = no_library \<lparr> lib_find_duplicates := (\<lambda>f byname. Inr dupl_entries) \<rparr>"

definition dupl_args :: args where
  "dupl_args =
     base_args \<lparr> cmd_find := True, cmd_dupl := True, opt_all := True,
                 arg_src_file := Some ''shared.txt'' \<rparr>"

definition dupl_group_args :: args where
  "dupl_group_args = dupl_args \<lparr> opt_sortby := Some ''group'' \<rparr>"

definition two_guid_file :: File where
  "two_guid_file =
     \<lparr> groups = [\<lparr> pg_id = 1, pg_name = ''Doors'', pg_line_number = 1 \<rparr>],
       params = [pdef ''aaaaaaaa-0000-0000-0000-000000000001'' ''Width'' 1 2,
                 pdef ''bbbbbbbb-0000-0000-0000-000000000002'' ''Depth'' 1 3,
                 pdef ''aaaaaaaa-0000-0000-0000-000000000001'' ''Height'' 1 4] \<rparr>"

definition file_x :: File where
  "file_x = \<lparr> groups = [\<lparr> pg_id = 1, pg_name = ''Doors'', pg_line_number = 1 \<rparr>],
              params = [pdef ''guid-x'' ''Width'' 1 2] \<rparr>"

definition file_y :: File where
  "file_y = \<lparr> groups = [\<lparr> pg_id = 1, pg_name = ''Doors'', pg_line_number = 1 \<rparr>],
              params = [pdef ''guid-y'' ''Width'' 1 2] \<rparr>"

definition door_file :: File where
  "door_file =
     \<lparr> groups = [\<lparr> pg_id = 1, pg_name = ''Doors'', pg_line_number = 1 \<rparr>,
                 \<lparr> pg_id = 2, pg_name = ''Windows'', pg_line_number = 2 \<rparr>],
       params = [pdef ''guid-1'' ''Door Width'' 1 3, pdef ''guid-2'' ''Window Width'' 2 4] \<rparr>"

text \<open>A codec for the examples: bytes below 128 are the text, any other byte is an error.\<close>

definition decode_ascii :: decoder where
  "decode_ascii encoding bytes =
     (if list_all (\<lambda>b. (of_char b :: nat) < 128) bytes then Some bytes else None)"

fun join :: "char \<Rightarrow> string list \<Rightarrow> string" where
  "join c [] = []"
| "join c [s] = s"
| "join c (s # t # ss) = s @ c # join c (t # ss)"

definition good_text :: string where
  "good_text =
     join nl [join tab [''*GROUP'', ''ID'', ''NAME''],
              join tab [''GROUP'', ''1'', ''Doors''],
              [],
              join tab [''PARAM'', ''0A1B2C3D-0000-0000-0000-00000000000F'', ''Width'',
                        ''LENGTH'', ''1'', '''', ''1'']]"

definition bad_id_text :: string where
  "bad_id_text = join tab [''GROUP'', ''x'', ''Doors'']"

definition short_text :: string where
  "short_text = join nl [join tab [''GROUP'', ''1'', ''Doors''], join tab [''GROUP'', ''2'']]"

section \<open>Calls of the two stubs\<close>

lemma bind_args_one [simp]: "bind_args [p] [v] [] = Inr [v]"
  by (simp add: bind_args_def)

lemma bind_args_two [simp]: "bind_args [p, q] [v, w] [] = Inr [v, w]"
  by (simp add: bind_args_def)

lemma bind_args_unknown_keyword:
  "k \<notin> set ps \<Longrightarrow> length pos \<le> length ps \<Longrightarrow> bind_args ps pos ((k, v) # kws) = Inl TypeError"
  by (simp add: bind_args_def)

lemma sort_cli_positional: "sort_cli [f] [] = Inl NotImplementedError"
  by (simp add: sort_cli_def bind_err_def)

lemma sort_cli_keyword:
  "k \<noteq> ''source_file'' \<Longrightarrow> sort_cli [f] [(k, v)] = Inl TypeError"
  by (simp add: sort_cli_def bind_err_def bind_args_unknown_keyword)

lemma merge_cli_positional: "merge_cli [d, fs] [] = Inl NotImplementedError"
  by (simp add: merge_cli_def bind_err_def)

lemma and_then_raised [simp]: "and_then (os, Inl e) f = (os, Inl e)"
  by (simp add: and_then_def)

lemma prepend_pair [simp]: "prepend os (ps, r) = (os @ ps, r)"
  by (simp add: prepend_def)

text \<open>
  C4. Every run of the \<^verbatim>\<open>sort\<close> command raises TypeError: \<^verbatim>\<open>main\<close> prints the
  encoding and the file name, then calls \<^verbatim>\<open>sort(source_file, byname=...)\<close>, and
  \<^verbatim>\<open>sort\<close> has the single parameter \<^verbatim>\<open>source_file\<close>. The call fails while its
  arguments are bound, so the body of \<^verbatim>\<open>sort\<close> (which raises NotImplementedError)
  is not reached and the command never completes.
\<close>

theorem sort_command_raises_TypeError:
  assumes "cmd_sort a" and "\<not> cmd_list a" and "\<not> cmd_find a" and "\<not> cmd_comp a"
    and "\<not> cmd_merge a"
  shows "main a lib =
           (report_globals a @ report_filenames a (One (arg_src_file a)) ''source file: '' Blue,
            Inl TypeError)
         \<and> sort_cli [AStr (arg_src_file a)] [(''byname'', ABool (opt_byname a))]
             = (Inl TypeError :: error + unit)
         \<and> snd (main a lib) \<noteq> Inl NotImplementedError \<and> snd (main a lib) \<noteq> Inr ()"
proof -
  have call: "sort_cli [AStr (arg_src_file a)] [(''byname'', ABool (opt_byname a))]
                = (Inl TypeError :: error + unit)"
    by (rule sort_cli_keyword) simp
  have run: "main a lib =
           (report_globals a @ report_filenames a (One (arg_src_file a)) ''source file: '' Blue,
            Inl TypeError)"
    using assms by (simp add: main_def call lift_err_def)
  show ?thesis
    using call run by simp
qed

theorem sort_command_raises_TypeError_witness:
  "cmd_sort sort_args \<and> main sort_args no_library =
     ([Line Yellow ''encoding=utf-8'', Line Blue ''source file: shared.txt''], Inl TypeError)"
  using sort_command_raises_TypeError [of sort_args no_library]
  by (simp add: sort_args_def base_args_def report_globals_def report_filenames_def report_def)

text \<open>
  C1, as the code has it. \<^verbatim>\<open>merge\<close> is a stub: called with a destination and a list
  of sources, as \<^verbatim>\<open>main\<close> calls it, it raises NotImplementedError, and so does every
  run of the \<^verbatim>\<open>merge\<close> command. No merged file and no list of warnings is produced.
\<close>

theorem merge_raises_NotImplementedError:
  "merge_cli [dest_file, source_files] [] = Inl NotImplementedError
   \<and> (cmd_merge a \<and> \<not> cmd_list a \<and> \<not> cmd_find a \<and> \<not> cmd_comp a
        \<longrightarrow> snd (main a lib) = Inl NotImplementedError)"
proof -
  have "merge_cli [AStr (arg_dest_file a), AList (arg_src_files a)] []
          = (Inl NotImplementedError :: error + unit)"
    by (rule merge_cli_positional)
  then have "cmd_merge a \<and> \<not> cmd_list a \<and> \<not> cmd_find a \<and> \<not> cmd_comp a
        \<longrightarrow> snd (main a lib) = Inl NotImplementedError"
    by (simp add: main_def lift_err_def)
  then show ?thesis
    by (simp add: merge_cli_positional)
qed

theorem merge_raises_NotImplementedError_witness:
  "cmd_merge merge_args \<and> snd (main merge_args no_library) = Inl NotImplementedError"
  using merge_raises_NotImplementedError [THEN conjunct2, of merge_args no_library]
  by (simp add: merge_args_def base_args_def)

text \<open>
  C1 as stated fails: for the two files that both declare group 1, \<^verbatim>\<open>merge\<close> returns
  no pair of a merged file and warnings.
\<close>

theorem merge_returns_no_file_counterexample:
  "\<not> (\<exists>merged :: File. \<exists>warnings :: MergeConflict list.
        merge_cli [Inl ''merged.txt'', Inr [doors_a, doors_b]] [] = Inr (merged, warnings))"
  by (simp add: merge_cli_positional)

text \<open>
  C2, as the code has it. \<^verbatim>\<open>sort\<close> is a stub with the single parameter
  \<^verbatim>\<open>source_file\<close>: called with a file alone it raises NotImplementedError, and called
  with a keyword \<^verbatim>\<open>by\<close> it raises TypeError. No reordered file is produced and
  nothing is said about the order of parameters or groups.
\<close>

theorem sort_by_group_raises:
  "sort_cli [file] [] = Inl NotImplementedError
   \<and> sort_cli [file] [(''by'', v)] = Inl TypeError"
  by (simp add: sort_cli_positional sort_cli_keyword)

text \<open>
  C2 as stated fails: for parameters in the groups 2, 1, 2 named B, A, A,
  \<^verbatim>\<open>sort(file, by=group)\<close> returns no file, with or without the keyword.
\<close>

theorem sort_by_group_counterexample:
  "\<not> (\<exists>sorted_file :: File.
         sort_cli [Inl baa_file] [(''by'', Inr ''group'')] = Inr sorted_file
       \<or> sort_cli [Inl baa_file :: File + string] [] = Inr sorted_file)"
  by (simp add: sort_cli_positional sort_cli_keyword)

text \<open>
  C8, as the code has it. Sorting returns no file, so there is nothing to sort a second
  time: \<^verbatim>\<open>sort(f)\<close> raises NotImplementedError, \<^verbatim>\<open>sort(f, by=name)\<close> raises
  TypeError, and feeding the outcome to \<^verbatim>\<open>sort\<close> again ends in the same exception.
\<close>

theorem sort_twice_raises_as_once:
  "sort_cli [f] [] = Inl NotImplementedError
   \<and> bind_err (sort_cli [f] []) (\<lambda>g. sort_cli [wrap g] []) = sort_cli [f] []
   \<and> sort_cli [f] [(''by'', v)] = Inl TypeError
   \<and> bind_err (sort_cli [f] [(''by'', v)]) (\<lambda>g. sort_cli [wrap g] [(''by'', v)])
       = sort_cli [f] [(''by'', v)]"
  by (simp add: sort_cli_positional sort_cli_keyword bind_err_def)

text \<open>
  C8 as stated fails: there is no file that \<^verbatim>\<open>sort(f, by=name)\<close> and
  \<^verbatim>\<open>sort(sort(f, by=name), by=name)\<close> both return.
\<close>

theorem sort_idempotent_counterexample:
  "\<not> (\<exists>g :: File.
         sort_cli [Inl baa_file] [(''by'', Inr ''name'')] = Inr g
       \<and> bind_err (sort_cli [Inl baa_file] [(''by'', Inr ''name'')])
            (\<lambda>h :: File. sort_cli [Inl h] [(''by'', Inr ''name'')]) = Inr g)"
  by (simp add: sort_cli_keyword)

section \<open>Listing under \<^verbatim>\<open>--sortby group\<close>\<close>

lemma keyed_constant:
  "(\<And>x. x \<in> set xs \<Longrightarrow> f x = Inr k) \<Longrightarrow> keyed f xs = Inr (map (\<lambda>x. (k, x)) xs)"
  by (induction xs) simp_all

lemma sort_keyed_constant_int:
  "sort_keyed (map (\<lambda>x. (PInt i, x)) xs) = Inr (map (\<lambda>x. (PInt i, x)) xs)"
proof (induction xs)
  case Nil
  show ?case by simp
next
  case (Cons x xs)
  then show ?case by (cases xs) simp_all
qed

lemma py_sorted_constant_int:
  assumes "\<And>x. x \<in> set xs \<Longrightarrow> f x = Inr (PInt i)"
  shows "py_sorted f xs = Inr xs"
proof -
  have "keyed f xs = Inr (map (\<lambda>x. (PInt i, x)) xs)"
    using assms by (rule keyed_constant)
  then show ?thesis
    by (simp add: py_sorted_def sort_keyed_constant_int comp_def)
qed

lemma name_not_tuple_attr: "''name'' \<notin> set tuple_attrs"
  by (simp add: tuple_attrs_def)

lemma name_key_constant: "name_key x = Inr (PInt 0)"
  by (simp add: name_key_def getattr_tuple_def name_not_tuple_attr)

text \<open>
  The rows of a table are tuples, a tuple has no attribute \<^verbatim>\<open>name\<close>, and so the key
  of every row is 0: the stable sort under \<^verbatim>\<open>--sortby group\<close> leaves the rows as
  they were, in the order of the parameters.
\<close>

lemma py_sorted_name_key: "py_sorted name_key rows = Inr rows"
  by (rule py_sorted_constant_int [where i = 0]) (rule name_key_constant)

lemma list_params_sortby_group:
  assumes "opt_sortby a = Some ''group''"
  shows "list_params a lib src_file sparams =
           (case or_read sparams (lib_get_params lib src_file (opt_filter a)) of
              Inl e \<Rightarrow> raised e
            | Inr sps \<Rightarrow>
                returned (Table (param_rows a lib sps) param_headers
                          # report a Plain (total_line (length sps))))"
  using assms
  by (simp add: list_params_def py_sorted_name_key param_rows_def split: sum.splits)

text \<open>
  C3, at the input \<^verbatim>\<open>list -p --sortby group\<close> on a file whose parameters are named
  B and A in this order: the table shows the row of B before the row of A. The rows are
  not ordered by name; they are in the order in which the library returned them.
\<close>

theorem list_sortby_group_keeps_file_order:
  "main list_group_args ba_library =
     ([Line Yellow ''encoding=utf-8'', Line Blue ''source file: shared.txt'',
       Table [[PStr ''guid-1'', PStr ''B'', PStr ''TEXT'', PObj ''Doors'', PInt 3],
              [PStr ''guid-2'', PStr ''A'', PStr ''TEXT'', PObj ''Doors'', PInt 4]]
             [''Guid'', ''Name'', ''Datatype'', ''Group'', ''Line #''],
       Line Plain ''Total of 2 items.'', Line Plain []],
      Inr ())"
  by (simp add: main_def list_group_args_def base_args_def ba_library_def no_library_def
        report_globals_def report_filenames_def report_def list_params_def py_sorted_name_key
        param_rows_def param_columns_def getattr_param_def sparam_def param_headers_def
        returned_def and_then_def total_line_def str_int_def digits.simps digit_char_def)

section \<open>The buffer of the duplicate reports\<close>

lemma accumulated_length [simp]: "length (accumulated acc ds) = length ds"
  by (induction ds arbitrary: acc) simp_all

lemma accumulated_nth:
  "k < length ds \<Longrightarrow> accumulated acc ds ! k = acc @ concat (take (Suc k) ds)"
proof (induction ds arbitrary: acc k)
  case Nil
  then show ?case by simp
next
  case (Cons d ds)
  then show ?case by (cases k) simp_all
qed

lemma first_cell_append:
  "first_cell xs = Inr v \<Longrightarrow> first_cell (xs @ ys) = Inr v"
  by (cases xs) (simp_all add: first_cell_def bind_err_def)

lemma group_loop_accumulates:
  "first_cell (acc @ map (group_dupl_row byname) d) = Inr v \<Longrightarrow>
   group_dupl_loop byname dp acc (d # ds)
     = returned (dupl_outputs dp v (group_dupl_headers byname)
                  (accumulated acc (map (map (group_dupl_row byname)) (d # ds))))"
proof (induction ds arbitrary: acc d)
  case Nil
  then show ?case by (simp add: dupl_outputs_def returned_def)
next
  case (Cons d' ds)
  have "first_cell ((acc @ map (group_dupl_row byname) d) @ map (group_dupl_row byname) d') = Inr v"
    using Cons.prems by (rule first_cell_append)
  from Cons.IH [OF this] Cons.prems show ?case
    by (simp add: dupl_outputs_def returned_def)
qed

lemma param_loop_accumulates:
  "opt_sortby a \<noteq> Some ''group'' \<Longrightarrow>
   first_cell (acc @ map (param_dupl_row byname) d) = Inr v \<Longrightarrow>
   param_dupl_loop a byname dp acc (d # ds)
     = returned (dupl_outputs dp v (param_dupl_headers byname)
                  (accumulated acc (map (map (param_dupl_row byname)) (d # ds))))"
proof (induction ds arbitrary: acc d)
  case Nil
  then show ?case by (simp add: dupl_outputs_def returned_def)
next
  case (Cons d' ds)
  have "first_cell ((acc @ map (param_dupl_row byname) d) @ map (param_dupl_row byname) d') = Inr v"
    using Cons.prems(2) by (rule first_cell_append)
  from Cons.IH [OF Cons.prems(1) this] Cons.prems show ?case
    by (simp add: dupl_outputs_def returned_def)
qed


lemma item_Inr: "i < length xs \<Longrightarrow> item xs i = Inr (xs ! i)"
proof (induction xs arbitrary: i)
  case Nil
  then show ?case by simp
next
  case (Cons x xs)
  then show ?case by (cases i) simp_all
qed

lemma str_lt_iff_less: "str_lt s t \<longleftrightarrow> s < t"
proof (induction s t rule: str_lt.induct)
  case (4 x xs y ys)
  have "x < y \<or> x = y \<or> y < x" by (rule less_linear)
  with 4 show ?case
    by (auto simp: less_char_def)
qed simp_all

lemma insert_keyed_insort:
  "insert_keyed (PStr (f x), x) (map (\<lambda>y. (PStr (f y), y)) ys)
     = Inr (map (\<lambda>y. (PStr (f y), y)) (insort_key f x ys))"
proof (induction ys)
  case Nil
  show ?case by simp
next
  case (Cons a ys)
  show ?case
  proof (cases "f a < f x")
    case True
    then have "\<not> f x \<le> f a" by simp
    with True Cons show ?thesis by (simp add: str_lt_iff_less)
  next
    case False
    then have "f x \<le> f a" by simp
    with False show ?thesis by (simp add: str_lt_iff_less)
  qed
qed

lemma sort_keyed_sort_key:
  "sort_keyed (map (\<lambda>y. (PStr (f y), y)) xs) = Inr (map (\<lambda>y. (PStr (f y), y)) (sort_key f xs))"
  by (induction xs) (simp_all add: insert_keyed_insort)

lemma group_key_text: "3 < length x \<Longrightarrow> group_key x = Inr (PStr (group_text x))"
  by (simp add: group_key_def group_text_def item_Inr bind_err_def)

lemma keyed_group_text:
  "\<forall>x\<in>set xs. 3 < length x \<Longrightarrow>
   keyed group_key xs = Inr (map (\<lambda>x. (PStr (group_text x), x)) xs)"
  by (induction xs) (simp_all add: group_key_text)

lemma py_sorted_group_key_eq:
  "\<forall>x\<in>set xs. 3 < length x \<Longrightarrow> py_sorted group_key xs = Inr (sort_key group_text xs)"
  by (simp add: py_sorted_def keyed_group_text sort_keyed_sort_key comp_def)

lemma sort_key_append_sorted:
  "sort_key f (sort_key f xs @ ys) = sort_key f (xs @ ys)"
proof (rule properties_for_sort_key [symmetric])
  show "mset (sort_key f (sort_key f xs @ ys)) = mset (xs @ ys)"
    by simp
  show "sorted (map f (sort_key f (sort_key f xs @ ys)))"
    by simp
  fix k assume "k \<in> set (sort_key f (sort_key f xs @ ys))"
  have flip: "\<And>zs. filter (\<lambda>x. f k = f x) zs = filter (\<lambda>x. f x = f k) zs"
    by (rule filter_cong) auto
  show "filter (\<lambda>x. f k = f x) (sort_key f (sort_key f xs @ ys))
          = filter (\<lambda>x. f k = f x) (xs @ ys)"
    by (simp only: flip sort_key_stable filter_append)
qed


lemma first_cell_banner_cell:
  "buffer \<noteq> [] \<Longrightarrow> \<forall>x\<in>set buffer. 3 < length x \<Longrightarrow>
   first_cell buffer = Inr (banner_cell buffer)"
proof (cases buffer)
  case Nil
  then show "buffer \<noteq> [] \<Longrightarrow> ?thesis" by simp
next
  case (Cons r rs)
  assume "\<forall>x\<in>set buffer. 3 < length x"
  with Cons have "3 < length r" by simp
  then obtain c cs where "r = c # cs" by (cases r) auto
  with Cons show ?thesis
    by (simp add: first_cell_def bind_err_def banner_cell_def)
qed

lemma sorted_table_Suc:
  "n < length rowss \<Longrightarrow>
   sort_key group_text (sorted_table rowss n @ rowss ! n) = sorted_table rowss (Suc n)"
  by (simp add: sorted_table_def sort_key_append_sorted take_Suc_conv_app_nth)

lemma set_sorted_table: "set (sorted_table rowss n) \<subseteq> set (concat rowss)"
proof -
  have "set (take n rowss) \<subseteq> set rowss" by (rule set_take_subset)
  then show ?thesis by (auto simp: sorted_table_def)
qed

lemma param_loop_sorted_exact:
  assumes "opt_sortby a = Some ''group''"
  shows "map (map (param_dupl_row b)) ds = drop n rowss \<Longrightarrow> [] \<notin> set ds \<Longrightarrow>
     \<forall>x\<in>set (concat rowss). 3 < length x \<Longrightarrow> acc = sorted_table rowss n \<Longrightarrow>
     param_dupl_loop a b dp acc ds
       = returned (concat (map (\<lambda>k.
           [dupl_banner dp (banner_cell (sorted_table rowss k @ rowss ! k)),
            Table (sorted_table rowss (Suc k)) (param_dupl_headers b)]) [n..<n + length ds]))"
proof (induction ds arbitrary: n acc)
  case Nil
  show ?case by simp
next
  case (Cons d ds)
  let ?rows = "map (param_dupl_row b) d"
  from Cons.prems(1) have dr: "drop n rowss = ?rows # map (map (param_dupl_row b)) ds"
    by simp
  then have n: "n < length rowss"
    by (cases "n < length rowss") simp_all
  from dr have nth: "rowss ! n = ?rows"
    by (rule nth_via_drop)
  have "drop (Suc n) rowss = tl (drop n rowss)"
    by (simp add: drop_Suc tl_drop)
  with dr have rest: "map (map (param_dupl_row b)) ds = drop (Suc n) rowss"
    by simp
  let ?app = "acc @ ?rows"
  have app: "?app = sorted_table rowss n @ rowss ! n"
    using Cons.prems(4) nth by simp
  have "rowss ! n \<in> set rowss"
    using n by (rule nth_mem)
  then have "set (rowss ! n) \<subseteq> set (concat rowss)"
    by auto
  with set_sorted_table [of rowss n] Cons.prems(3) app
  have wide: "\<forall>x\<in>set ?app. 3 < length x"
    by auto
  from Cons.prems(2) have "d \<noteq> []" by auto
  then have ne: "?app \<noteq> []" by simp
  have fc: "first_cell ?app = Inr (banner_cell (sorted_table rowss n @ rowss ! n))"
    using first_cell_banner_cell [OF ne wide] app by simp
  have sorted: "py_sorted group_key ?app = Inr (sorted_table rowss (Suc n))"
    using py_sorted_group_key_eq [OF wide] app sorted_table_Suc [OF n] by simp
  from Cons.prems(2) have "[] \<notin> set ds" by simp
  from Cons.IH [OF rest this Cons.prems(3) refl]
  have ih: "param_dupl_loop a b dp (sorted_table rowss (Suc n)) ds
       = returned (concat (map (\<lambda>k.
           [dupl_banner dp (banner_cell (sorted_table rowss k @ rowss ! k)),
            Table (sorted_table rowss (Suc k)) (param_dupl_headers b)])
           [Suc n..<Suc n + length ds]))" .
  have upt: "[n..<Suc (n + length ds)] = n # [Suc n..<Suc (n + length ds)]"
    by (rule upt_conv_Cons) simp
  show ?case
    using assms fc sorted ih
    by (simp add: upt returned_def Let_def del: upt_Suc)
qed

lemma banner_cell_first_two:
  assumes "rowss \<noteq> []" and "hd rowss \<noteq> []" and "\<forall>r\<in>set (hd rowss). banner_cell [r] = v"
  shows "banner_cell (sorted_table rowss 0 @ rowss ! 0) = v
         \<and> (1 < length rowss \<longrightarrow> banner_cell (sorted_table rowss 1 @ rowss ! 1) = v)"
proof -
  have cell: "\<And>r rs. banner_cell (r # rs) = banner_cell [r]"
    by (simp add: banner_cell_def split: list.splits)
  from assms(1) obtain d rest where "rowss = d # rest"
    by (cases rowss) auto
  moreover from this assms(2) obtain r rs where "d = r # rs"
    by (cases d) auto
  ultimately have rowss: "rowss = (r # rs) # rest"
    by simp
  with assms(3) have "banner_cell [r] = v" by simp
  moreover have "sorted_table rowss 0 @ rowss ! 0 = r # rs"
    using rowss by (simp add: sorted_table_def)
  ultimately have first: "banner_cell (sorted_table rowss 0 @ rowss ! 0) = v"
    using cell [of r rs] by simp
  have "length (sort_key group_text (r # rs)) = length (r # rs)"
    by (rule length_sort)
  then have "sort_key group_text (r # rs) \<noteq> []"
    by auto
  then obtain y ys where ys: "sort_key group_text (r # rs) = y # ys"
    by (cases "sort_key group_text (r # rs)") auto
  then have "y \<in> set (sort_key group_text (r # rs))" by simp
  moreover have "set (sort_key group_text (r # rs)) = set (r # rs)"
    by (rule set_sort)
  moreover have "hd rowss = r # rs"
    using rowss by simp
  ultimately have "y \<in> set (hd rowss)"
    by simp
  with assms(3) have "banner_cell [y] = v" by simp
  moreover have "sorted_table rowss 1 @ rowss ! 1 = y # (ys @ rowss ! 1)"
    using ys rowss by (simp add: sorted_table_def)
  ultimately have "banner_cell (sorted_table rowss 1 @ rowss ! 1) = v"
    using cell [of y "ys @ rowss ! 1"] by simp
  with first show ?thesis by simp
qed

text \<open>
  C10, as the code has it. \<^verbatim>\<open>dupldata\<close> is created before the loop and never
  cleared. For the duplicates of groups, and for those of parameters unless
  \<^verbatim>\<open>--sortby group\<close> is given, the run prints for every list of duplicates a banner
  with the first cell of the first row of the first list, and a table with the rows of
  all lists so far, in order. Under \<^verbatim>\<open>--sortby group\<close> the buffer of parameters is
  replaced by its sorted copy in every pass: the table of pass k is the rows of the
  lists 1 to k sorted by the text of their group, rows with the same text in the order
  of the lists, and the banner of pass k shows the first cell of the table of the pass
  before followed by the rows of list k. That is the first key's value in the first
  two passes, when the rows of the first list all start with it.
\<close>

theorem dupl_buffer_accumulates:
  assumes "lib_find_duplicates lib src_file (opt_byname a) = Inr spentries"
    and "duplparam = (if opt_byname a then ''name'' else ''guid'')"
    and "grows = map (map (group_dupl_row (opt_byname a))) (spe_groups spentries)"
    and "prows = map (map (param_dupl_row (opt_byname a))) (spe_params spentries)"
  shows "(grows \<noteq> [] \<and> hd grows \<noteq> [] \<longrightarrow>
            find_group_dupls a lib src_file =
              returned (report a Yellow (dupl_title ''groups'' duplparam)
                        @ dupl_outputs duplparam (first_key grows)
                            (group_dupl_headers (opt_byname a)) (accumulated [] grows)))
       \<and> (prows \<noteq> [] \<and> hd prows \<noteq> [] \<and> opt_sortby a \<noteq> Some ''group'' \<longrightarrow>
            find_param_dupls a lib src_file =
              returned (report a Yellow (dupl_title ''params'' duplparam)
                        @ dupl_outputs duplparam (first_key prows)
                            (param_dupl_headers (opt_byname a)) (accumulated [] prows)))
       \<and> ([] \<notin> set prows \<and> opt_sortby a = Some ''group'' \<longrightarrow>
            find_param_dupls a lib src_file =
              returned (report a Yellow (dupl_title ''params'' duplparam)
                        @ sorted_dupl_outputs duplparam (param_dupl_headers (opt_byname a)) prows))
       \<and> (\<forall>r\<in>set (concat prows). group_key r = Inr (PStr (group_text r)))
       \<and> sorted (map group_text (sorted_table prows k))
       \<and> mset (sorted_table prows k) = mset (concat (take k prows))
       \<and> filter (\<lambda>r. group_text r = g) (sorted_table prows k)
           = filter (\<lambda>r. group_text r = g) (concat (take k prows))
       \<and> (prows \<noteq> [] \<and> hd prows \<noteq> [] \<and> (\<forall>r\<in>set (hd prows). banner_cell [r] = v) \<longrightarrow>
            banner_cell (sorted_table prows 0 @ prows ! 0) = v
            \<and> (1 < length prows \<longrightarrow> banner_cell (sorted_table prows 1 @ prows ! 1) = v))
       \<and> (\<forall>k < length prows. accumulated [] prows ! k = concat (take (Suc k) prows))
       \<and> (\<forall>k < length grows. accumulated [] grows ! k = concat (take (Suc k) grows))"
proof -
  let ?b = "opt_byname a"
  have g: "grows \<noteq> [] \<and> hd grows \<noteq> [] \<longrightarrow>
            find_group_dupls a lib src_file =
              returned (report a Yellow (dupl_title ''groups'' duplparam)
                        @ dupl_outputs duplparam (first_key grows)
                            (group_dupl_headers ?b) (accumulated [] grows))"
  proof
    assume ne: "grows \<noteq> [] \<and> hd grows \<noteq> []"
    then obtain d ds where dds: "spe_groups spentries = d # ds"
      using assms(3) by (cases "spe_groups spentries") auto
    with ne assms(3) obtain x xs where d: "d = x # xs"
      by (cases d) auto
    have fc: "first_cell ([] @ map (group_dupl_row ?b) d) = Inr (first_key grows)"
      using d dds assms(3)
      by (simp add: first_cell_def bind_err_def first_key_def group_dupl_row_def)
    from group_loop_accumulates [OF fc, of duplparam ds]
    have "group_dupl_loop ?b duplparam [] (spe_groups spentries)
            = returned (dupl_outputs duplparam (first_key grows)
                          (group_dupl_headers ?b) (accumulated [] grows))"
      using dds assms(3) by (simp del: group_dupl_loop.simps)
    then show "find_group_dupls a lib src_file =
              returned (report a Yellow (dupl_title ''groups'' duplparam)
                        @ dupl_outputs duplparam (first_key grows)
                            (group_dupl_headers ?b) (accumulated [] grows))"
      using assms(1,2)
      by (simp add: find_group_dupls_def returned_def Let_def del: group_dupl_loop.simps)
  qed
  have p: "prows \<noteq> [] \<and> hd prows \<noteq> [] \<and> opt_sortby a \<noteq> Some ''group'' \<longrightarrow>
            find_param_dupls a lib src_file =
              returned (report a Yellow (dupl_title ''params'' duplparam)
                        @ dupl_outputs duplparam (first_key prows)
                            (param_dupl_headers ?b) (accumulated [] prows))"
  proof
    assume ne: "prows \<noteq> [] \<and> hd prows \<noteq> [] \<and> opt_sortby a \<noteq> Some ''group''"
    then obtain d ds where dds: "spe_params spentries = d # ds"
      using assms(4) by (cases "spe_params spentries") auto
    with ne assms(4) obtain x xs where d: "d = x # xs"
      by (cases d) auto
    have fc: "first_cell ([] @ map (param_dupl_row ?b) d) = Inr (first_key prows)"
      using d dds assms(4)
      by (simp add: first_cell_def bind_err_def first_key_def param_dupl_row_def)
    from ne have ns: "opt_sortby a \<noteq> Some ''group''" by simp
    from param_loop_accumulates [OF ns fc, of duplparam ds]
    have "param_dupl_loop a ?b duplparam [] (spe_params spentries)
            = returned (dupl_outputs duplparam (first_key prows)
                          (param_dupl_headers ?b) (accumulated [] prows))"
      using dds assms(4) by (simp del: param_dupl_loop.simps)
    then show "find_param_dupls a lib src_file =
              returned (report a Yellow (dupl_title ''params'' duplparam)
                        @ dupl_outputs duplparam (first_key prows)
                            (param_dupl_headers ?b) (accumulated [] prows))"
      using assms(1,2)
      by (simp add: find_param_dupls_def returned_def Let_def del: param_dupl_loop.simps)
  qed
  have wide: "\<forall>r\<in>set (concat prows). 3 < length r"
    using assms(4) by (auto simp: param_dupl_row_def)
  have s: "[] \<notin> set prows \<and> opt_sortby a = Some ''group'' \<longrightarrow>
            find_param_dupls a lib src_file =
              returned (report a Yellow (dupl_title ''params'' duplparam)
                        @ sorted_dupl_outputs duplparam (param_dupl_headers ?b) prows)"
  proof
    assume h: "[] \<notin> set prows \<and> opt_sortby a = Some ''group''"
    then have ne: "[] \<notin> set (spe_params spentries)"
      using assms(4) by auto
    from h have sg: "opt_sortby a = Some ''group''" by simp
    have dr: "map (map (param_dupl_row ?b)) (spe_params spentries) = drop 0 prows"
      using assms(4) by simp
    have start: "[] = sorted_table prows 0"
      by (simp add: sorted_table_def)
    from param_loop_sorted_exact [OF sg dr ne wide start, of duplparam]
    have "param_dupl_loop a ?b duplparam [] (spe_params spentries)
            = returned (sorted_dupl_outputs duplparam (param_dupl_headers ?b) prows)"
      using assms(4) by (simp add: sorted_dupl_outputs_def del: param_dupl_loop.simps)
    then show "find_param_dupls a lib src_file =
              returned (report a Yellow (dupl_title ''params'' duplparam)
                        @ sorted_dupl_outputs duplparam (param_dupl_headers ?b) prows)"
      using assms(1,2)
      by (simp add: find_param_dupls_def returned_def Let_def del: param_dupl_loop.simps)
  qed
  have key: "\<forall>r\<in>set (concat prows). group_key r = Inr (PStr (group_text r))"
    using wide group_key_text by blast
  have order: "sorted (map group_text (sorted_table prows k))
       \<and> mset (sorted_table prows k) = mset (concat (take k prows))
       \<and> filter (\<lambda>r. group_text r = g) (sorted_table prows k)
           = filter (\<lambda>r. group_text r = g) (concat (take k prows))"
    by (simp add: sorted_table_def sort_key_stable)
  have first_two: "prows \<noteq> [] \<and> hd prows \<noteq> [] \<and> (\<forall>r\<in>set (hd prows). banner_cell [r] = v) \<longrightarrow>
            banner_cell (sorted_table prows 0 @ prows ! 0) = v
            \<and> (1 < length prows \<longrightarrow> banner_cell (sorted_table prows 1 @ prows ! 1) = v)"
    using banner_cell_first_two [of prows v] by blast
  have acc: "(\<forall>k < length prows. accumulated [] prows ! k = concat (take (Suc k) prows))
       \<and> (\<forall>k < length grows. accumulated [] grows ! k = concat (take (Suc k) grows))"
    by (simp add: accumulated_nth)
  show ?thesis
    using g p s key order first_two acc by blast
qed

lemmas dupl_example_defs =
  dupl_library_def dupl_entries_def dupl_args_def dupl_group_args_def base_args_def
  no_library_def sparam_def

theorem dupl_buffer_accumulates_witness:
  "find_group_dupls dupl_args dupl_library (Some ''shared.txt'') =
     returned (Line Yellow (dupl_title ''groups'' ''guid'')
       # dupl_outputs ''guid'' (PStr ''1'') [''Guid'', ''Name'', ''Line #'']
           [[[PStr ''1'', PStr ''Doors'', PInt 2], [PStr ''1'', PStr ''Walls'', PInt 3]],
            [[PStr ''1'', PStr ''Doors'', PInt 2], [PStr ''1'', PStr ''Walls'', PInt 3],
             [PStr ''2'', PStr ''Roofs'', PInt 4], [PStr ''2'', PStr ''Floors'', PInt 5]]])
   \<and> fst (find_param_dupls dupl_args dupl_library (Some ''shared.txt'')) ! 3
       = dupl_banner ''guid'' (PStr ''K1'')
   \<and> find_param_dupls dupl_group_args dupl_library (Some ''shared.txt'') =
       returned
         [Line Yellow (dupl_title ''params'' ''guid''),
          dupl_banner ''guid'' (PStr ''K1''),
          Table (map (param_dupl_row False)
                   [sparam ''K1'' ''a'' ''Z'' 6, sparam ''K1'' ''b'' ''Z'' 7])
                (param_dupl_headers False),
          dupl_banner ''guid'' (PStr ''K1''),
          Table (map (param_dupl_row False)
                   [sparam ''K2'' ''c'' ''A'' 8, sparam ''K2'' ''d'' ''A'' 9,
                    sparam ''K1'' ''a'' ''Z'' 6, sparam ''K1'' ''b'' ''Z'' 7])
                (param_dupl_headers False),
          dupl_banner ''guid'' (PStr ''K2''),
          Table (map (param_dupl_row False)
                   [sparam ''K2'' ''c'' ''A'' 8, sparam ''K2'' ''d'' ''A'' 9,
                    sparam ''K3'' ''e'' ''M'' 10, sparam ''K3'' ''f'' ''M'' 11,
                    sparam ''K1'' ''a'' ''Z'' 6, sparam ''K1'' ''b'' ''Z'' 7])
                (param_dupl_headers False)]
   \<and> banner_cell (sorted_table (map (map (param_dupl_row False)) (spe_params dupl_entries)) 1
                    @ map (map (param_dupl_row False)) (spe_params dupl_entries) ! 1)
       = PStr ''K1''
   \<and> accumulated [] (map (map (param_dupl_row False)) (spe_params dupl_entries)) ! 1
       = concat (take 2 (map (map (param_dupl_row False)) (spe_params dupl_entries)))"
proof -
  let ?prows = "map (map (param_dupl_row False)) (spe_params dupl_entries)"
  have l1: "lib_find_duplicates dupl_library (Some ''shared.txt'') (opt_byname dupl_args)
              = Inr dupl_entries"
    by (simp add: dupl_library_def)
  have l2: "lib_find_duplicates dupl_library (Some ''shared.txt'') (opt_byname dupl_group_args)
              = Inr dupl_entries"
    by (simp add: dupl_library_def)
  note w1 = dupl_buffer_accumulates [OF l1 refl refl refl]
  note w2 = dupl_buffer_accumulates [OF l2 refl refl refl]
  have g: "find_group_dupls dupl_args dupl_library (Some ''shared.txt'') =
     returned (Line Yellow (dupl_title ''groups'' ''guid'')
       # dupl_outputs ''guid'' (PStr ''1'') [''Guid'', ''Name'', ''Line #'']
           [[[PStr ''1'', PStr ''Doors'', PInt 2], [PStr ''1'', PStr ''Walls'', PInt 3]],
            [[PStr ''1'', PStr ''Doors'', PInt 2], [PStr ''1'', PStr ''Walls'', PInt 3],
             [PStr ''2'', PStr ''Roofs'', PInt 4], [PStr ''2'', PStr ''Floors'', PInt 5]]])"
    using w1 [THEN conjunct1]
    by (simp add: dupl_example_defs report_def first_key_def group_dupl_row_def
          group_dupl_headers_def)
  have p: "fst (find_param_dupls dupl_args dupl_library (Some ''shared.txt'')) ! 3
       = dupl_banner ''guid'' (PStr ''K1'')"
    using w1 [THEN conjunct2, THEN conjunct1]
    by (simp add: dupl_example_defs report_def first_key_def param_dupl_row_def
          returned_def dupl_outputs_def)
  have byname: "opt_byname dupl_group_args = False"
       and sortby: "opt_sortby dupl_group_args = Some ''group''"
       and quiet: "\<not> opt_quiet dupl_group_args"
    by (simp_all add: dupl_group_args_def dupl_args_def base_args_def)
  have nonempty: "[] \<notin> set ?prows"
    by (simp add: dupl_entries_def)
  have run: "find_param_dupls dupl_group_args dupl_library (Some ''shared.txt'') =
        returned (Line Yellow (dupl_title ''params'' ''guid'')
                  # sorted_dupl_outputs ''guid'' (param_dupl_headers False) ?prows)"
    using w2 [THEN conjunct2, THEN conjunct2, THEN conjunct1] nonempty
    by (simp add: byname sortby quiet report_def)
  have tables: "sorted_dupl_outputs ''guid'' (param_dupl_headers False) ?prows =
         [dupl_banner ''guid'' (PStr ''K1''),
          Table (map (param_dupl_row False)
                   [sparam ''K1'' ''a'' ''Z'' 6, sparam ''K1'' ''b'' ''Z'' 7])
                (param_dupl_headers False),
          dupl_banner ''guid'' (PStr ''K1''),
          Table (map (param_dupl_row False)
                   [sparam ''K2'' ''c'' ''A'' 8, sparam ''K2'' ''d'' ''A'' 9,
                    sparam ''K1'' ''a'' ''Z'' 6, sparam ''K1'' ''b'' ''Z'' 7])
                (param_dupl_headers False),
          dupl_banner ''guid'' (PStr ''K2''),
          Table (map (param_dupl_row False)
                   [sparam ''K2'' ''c'' ''A'' 8, sparam ''K2'' ''d'' ''A'' 9,
                    sparam ''K3'' ''e'' ''M'' 10, sparam ''K3'' ''f'' ''M'' 11,
                    sparam ''K1'' ''a'' ''Z'' 6, sparam ''K1'' ''b'' ''Z'' 7])
                (param_dupl_headers False)]"
    by code_simp
  have first_list: "?prows \<noteq> [] \<and> hd ?prows \<noteq> []
                      \<and> (\<forall>r\<in>set (hd ?prows). banner_cell [r] = PStr ''K1'')"
    by (simp add: dupl_entries_def sparam_def param_dupl_row_def banner_cell_def)
  have three: "length ?prows = 3"
    by (simp add: dupl_entries_def)
  have second_banner: "banner_cell (sorted_table ?prows 1 @ ?prows ! 1) = PStr ''K1''"
    using w2 [where v = "PStr ''K1''"] first_list three
    by (simp add: byname)
  have second_buffer: "accumulated [] ?prows ! 1 = concat (take 2 ?prows)"
    using w2 three
    by (simp add: byname numeral_2_eq_2)
  show ?thesis
    using g p run tables second_banner second_buffer by simp
qed


text \<open>
  C10 as stated fails under \<^verbatim>\<open>--sortby group\<close>: with three duplicated GUIDs K1, K2
  and K3 whose groups print as Z, A and M, the third banner shows K2, the first cell
  of the buffer as sorted in the second pass, and not K1.
\<close>

theorem dupl_banner_counterexample:
  "printed_lines (fst (find_param_dupls dupl_group_args dupl_library (Some ''shared.txt'')))
     = [Line Yellow (dupl_title ''params'' ''guid''),
        dupl_banner ''guid'' (PStr ''K1''),
        dupl_banner ''guid'' (PStr ''K1''),
        dupl_banner ''guid'' (PStr ''K2'')]
   \<and> dupl_banner ''guid'' (PStr ''K2'') \<noteq> dupl_banner ''guid'' (PStr ''K1'')"
  by code_simp

section \<open>Duplicate detection\<close>

lemma first_keys_snoc:
  "first_keys (ks @ [k]) = (if k \<in> set ks then first_keys ks else first_keys ks @ [k])"
  by (simp add: first_keys_def)

lemma set_first_keys [simp]: "set (first_keys ks) = set ks"
  by (simp add: first_keys_def)

lemma distinct_first_keys [simp]: "distinct (first_keys ks)"
  by (simp add: first_keys_def)

lemma bucket_insert_present:
  "distinct ks \<Longrightarrow> f r \<in> set ks \<Longrightarrow>
   bucket_insert (f r) r (map (\<lambda>k. (k, filter (\<lambda>x. f x = k) rs)) ks)
     = map (\<lambda>k. (k, filter (\<lambda>x. f x = k) (rs @ [r]))) ks"
  by (induction ks) auto

lemma bucket_insert_absent:
  "f r \<notin> set ks \<Longrightarrow> f r \<notin> f ` set rs \<Longrightarrow>
   bucket_insert (f r) r (map (\<lambda>k. (k, filter (\<lambda>x. f x = k) rs)) ks)
     = map (\<lambda>k. (k, filter (\<lambda>x. f x = k) (rs @ [r]))) (ks @ [f r])"
proof (induction ks)
  case Nil
  then have "\<forall>x\<in>set rs. f x \<noteq> f r"
    by (metis imageI)
  then have "filter (\<lambda>x. f x = f r) rs = []"
    by (simp add: filter_empty_conv)
  then show ?case by simp
next
  case (Cons k ks)
  then show ?case by auto
qed

lemma buckets_snoc: "buckets f (rs @ [r]) = bucket_insert (f r) r (buckets f rs)"
  by (simp add: buckets_def)

lemma buckets_eq:
  "buckets f rs = map (\<lambda>k. (k, filter (\<lambda>x. f x = k) rs)) (first_keys (map f rs))"
proof (induction rs rule: rev_induct)
  case Nil
  show ?case by (simp add: buckets_def first_keys_def)
next
  case (snoc r rs)
  show ?case
  proof (cases "f r \<in> f ` set rs")
    case True
    then have "f r \<in> set (first_keys (map f rs))" by simp
    from bucket_insert_present [of "first_keys (map f rs)" f r rs, OF distinct_first_keys this]
      True snoc show ?thesis
      by (simp add: buckets_snoc first_keys_snoc)
  next
    case False
    then have "f r \<notin> set (first_keys (map f rs))" by simp
    from bucket_insert_absent [of f r "first_keys (map f rs)" rs, OF this False]
      False snoc show ?thesis
      by (simp add: buckets_snoc first_keys_snoc)
  qed
qed

lemma duplicated_buckets_distinct: "distinct (map fst (duplicated (buckets f rs)))"
proof -
  have "map fst (buckets f rs) = first_keys (map f rs)"
    by (simp add: buckets_eq comp_def)
  then have "distinct (map fst (buckets f rs))" by simp
  then show ?thesis
    unfolding duplicated_def by (rule distinct_map_filter)
qed

lemma duplicated_buckets_member:
  "(k, ms) \<in> set (duplicated (buckets f rs))
     \<longleftrightarrow> ms = filter (\<lambda>x. f x = k) rs \<and> 2 \<le> length ms"
proof
  assume "(k, ms) \<in> set (duplicated (buckets f rs))"
  then show "ms = filter (\<lambda>x. f x = k) rs \<and> 2 \<le> length ms"
    by (auto simp: duplicated_def buckets_eq)
next
  assume h: "ms = filter (\<lambda>x. f x = k) rs \<and> 2 \<le> length ms"
  then have "ms \<noteq> []" by auto
  with h obtain x where "x \<in> set rs" "f x = k"
    by (auto simp: filter_empty_conv)
  then have "k \<in> f ` set rs" by auto
  with h show "(k, ms) \<in> set (duplicated (buckets f rs))"
    by (auto simp: duplicated_def buckets_eq)
qed

lemma duplicated_buckets_pair:
  "f p = f q \<Longrightarrow> duplicated (buckets f [p, q]) = [(f p, [p, q])]"
  by (simp add: duplicated_def buckets_def)


text \<open>
  C5. \<^verbatim>\<open>find_duplicates\<close> groups the records by GUID (the id, for groups) or by name:
  the keys of the result are distinct, a key is in the result exactly when two or more
  records of the file have it, and it comes with exactly these records, in the order
  of the file. A file whose parameters are two records with the same GUID gives one
  key with the two records in order.
\<close>

theorem find_duplicates_by_key:
  "param_key_of False p = KGuid (pd_guid p) \<and> param_key_of True p = KName (pd_name p)
   \<and> group_key_of False g = KId (pg_id g) \<and> group_key_of True g = KName (pg_name g)
   \<and> distinct (map fst (dup_params (find_duplicates f by_name)))
   \<and> distinct (map fst (dup_groups (find_duplicates f by_name)))
   \<and> ((k, ps) \<in> set (dup_params (find_duplicates f by_name))
        \<longleftrightarrow> ps = filter (\<lambda>x. param_key_of by_name x = k) (params f) \<and> 2 \<le> length ps)
   \<and> ((k, gs) \<in> set (dup_groups (find_duplicates f by_name))
        \<longleftrightarrow> gs = filter (\<lambda>x. group_key_of by_name x = k) (groups f) \<and> 2 \<le> length gs)
   \<and> (params f = [p1, p2] \<and> pd_guid p1 = pd_guid p2
        \<longrightarrow> dup_params (find_duplicates f False) = [(KGuid (pd_guid p1), [p1, p2])])"
proof -
  have pair: "params f = [p1, p2] \<and> pd_guid p1 = pd_guid p2
        \<longrightarrow> dup_params (find_duplicates f False) = [(KGuid (pd_guid p1), [p1, p2])]"
  proof
    assume h: "params f = [p1, p2] \<and> pd_guid p1 = pd_guid p2"
    then have "param_key_of False p1 = param_key_of False p2"
      by (simp add: param_key_of_def)
    from duplicated_buckets_pair [of "param_key_of False" p1 p2, OF this] h
    show "dup_params (find_duplicates f False) = [(KGuid (pd_guid p1), [p1, p2])]"
      by (simp add: find_duplicates_def param_key_of_def)
  qed
  show ?thesis
    using pair
    by (simp add: find_duplicates_def duplicated_buckets_distinct duplicated_buckets_member
          param_key_of_def group_key_of_def)
qed

theorem find_duplicates_by_key_witness:
  "dup_params (find_duplicates two_guid_file False)
     = [(KGuid ''aaaaaaaa-0000-0000-0000-000000000001'',
         [pdef ''aaaaaaaa-0000-0000-0000-000000000001'' ''Width'' 1 2,
          pdef ''aaaaaaaa-0000-0000-0000-000000000001'' ''Height'' 1 4])]
   \<and> dup_params (find_duplicates (two_guid_file \<lparr> params := take 1 (params two_guid_file)
                                                   @ drop 2 (params two_guid_file) \<rparr>) False)
     = [(KGuid ''aaaaaaaa-0000-0000-0000-000000000001'',
         [pdef ''aaaaaaaa-0000-0000-0000-000000000001'' ''Width'' 1 2,
          pdef ''aaaaaaaa-0000-0000-0000-000000000001'' ''Height'' 1 4])]"
proof -
  let ?w = "pdef ''aaaaaaaa-0000-0000-0000-000000000001'' ''Width'' 1 2"
  let ?h = "pdef ''aaaaaaaa-0000-0000-0000-000000000001'' ''Height'' 1 4"
  let ?f = "two_guid_file \<lparr> params := take 1 (params two_guid_file)
                                        @ drop 2 (params two_guid_file) \<rparr>"
  have two: "params ?f = [?w, ?h] \<and> pd_guid ?w = pd_guid ?h"
    by (simp add: two_guid_file_def pdef_def)
  have second: "dup_params (find_duplicates ?f False)
                  = [(KGuid ''aaaaaaaa-0000-0000-0000-000000000001'', [?w, ?h])]"
    using find_duplicates_by_key [of _ _ ?f False _ _ _ ?w ?h] two
    by (simp add: pdef_def)
  have first: "dup_params (find_duplicates two_guid_file False)
                  = [(KGuid ''aaaaaaaa-0000-0000-0000-000000000001'', [?w, ?h])]"
    by (simp add: find_duplicates_def duplicated_def buckets_def param_key_of_def
          two_guid_file_def pdef_def)
  show ?thesis
    using first second by simp
qed

section \<open>Comparison of two files\<close>

lemma without_counterpart_set:
  "r \<in> set (without_counterpart f rs others) \<longleftrightarrow> r \<in> set rs \<and> f r \<notin> f ` set others"
  by (auto simp: without_counterpart_def)

lemma without_counterpart_filter:
  "without_counterpart f rs others = filter (\<lambda>r. f r \<notin> f ` set others) rs"
  by (simp add: without_counterpart_def)

text \<open>
  C6. \<^verbatim>\<open>compare\<close> returns, for each file, exactly the records whose comparison key no
  record of the other file has, in the order of the file. The parameters returned do
  not depend on the groups of the files, nor the groups on the parameters, and records
  of the two files with the same key are in neither result.
\<close>

theorem compare_unique_records:
  "(p \<in> set (only_params (fst (compare a b by_name)))
      \<longleftrightarrow> p \<in> set (params a) \<and> param_key_of by_name p \<notin> param_key_of by_name ` set (params b))
   \<and> (p \<in> set (only_params (snd (compare a b by_name)))
      \<longleftrightarrow> p \<in> set (params b) \<and> param_key_of by_name p \<notin> param_key_of by_name ` set (params a))
   \<and> (g \<in> set (only_groups (fst (compare a b by_name)))
      \<longleftrightarrow> g \<in> set (groups a) \<and> group_key_of by_name g \<notin> group_key_of by_name ` set (groups b))
   \<and> (g \<in> set (only_groups (snd (compare a b by_name)))
      \<longleftrightarrow> g \<in> set (groups b) \<and> group_key_of by_name g \<notin> group_key_of by_name ` set (groups a))
   \<and> only_params (fst (compare a b by_name))
       = filter (\<lambda>x. param_key_of by_name x \<notin> param_key_of by_name ` set (params b)) (params a)
   \<and> only_groups (fst (compare a b by_name))
       = filter (\<lambda>x. group_key_of by_name x \<notin> group_key_of by_name ` set (groups b)) (groups a)
   \<and> only_params (fst (compare (a \<lparr> groups := ga \<rparr>) (b \<lparr> groups := gb \<rparr>) by_name))
       = only_params (fst (compare a b by_name))
   \<and> only_params (snd (compare (a \<lparr> groups := ga \<rparr>) (b \<lparr> groups := gb \<rparr>) by_name))
       = only_params (snd (compare a b by_name))
   \<and> only_groups (fst (compare (a \<lparr> params := pa \<rparr>) (b \<lparr> params := pb \<rparr>) by_name))
       = only_groups (fst (compare a b by_name))
   \<and> only_groups (snd (compare (a \<lparr> params := pa \<rparr>) (b \<lparr> params := pb \<rparr>) by_name))
       = only_groups (snd (compare a b by_name))
   \<and> (p1 \<in> set (params a) \<and> p2 \<in> set (params b)
        \<and> param_key_of by_name p1 = param_key_of by_name p2
        \<longrightarrow> p1 \<notin> set (only_params (fst (compare a b by_name)))
          \<and> p2 \<notin> set (only_params (snd (compare a b by_name))))
   \<and> (g1 \<in> set (groups a) \<and> g2 \<in> set (groups b)
        \<and> group_key_of by_name g1 = group_key_of by_name g2
        \<longrightarrow> g1 \<notin> set (only_groups (fst (compare a b by_name)))
          \<and> g2 \<notin> set (only_groups (snd (compare a b by_name))))"
proof -
  show ?thesis
    by (simp add: compare_def without_counterpart_set without_counterpart_filter) (metis imageI)
qed

theorem compare_unique_records_witness:
  "compare file_x file_y False
     = (\<lparr> only_groups = [], only_params = [pdef ''guid-x'' ''Width'' 1 2] \<rparr>,
        \<lparr> only_groups = [], only_params = [pdef ''guid-y'' ''Width'' 1 2] \<rparr>)
   \<and> pdef ''guid-x'' ''Width'' 1 2 \<notin> set (only_params (fst (compare file_x file_y True)))"
proof -
  let ?x = "pdef ''guid-x'' ''Width'' 1 2"
  let ?y = "pdef ''guid-y'' ''Width'' 1 2"
  have same: "?x \<in> set (params file_x) \<and> ?y \<in> set (params file_y)
               \<and> param_key_of True ?x = param_key_of True ?y"
    by (simp add: file_x_def file_y_def param_key_of_def pdef_def)
  have by_name: "?x \<notin> set (only_params (fst (compare file_x file_y True)))"
    using compare_unique_records [of _ file_x file_y True _ _ _ _ _ ?x ?y] same
    by blast
  have by_guid: "compare file_x file_y False
     = (\<lparr> only_groups = [], only_params = [?x] \<rparr>,
        \<lparr> only_groups = [], only_params = [?y] \<rparr>)"
    by (simp add: compare_def without_counterpart_def file_x_def file_y_def
          param_key_of_def group_key_of_def pdef_def)
  show ?thesis
    using by_name by_guid by simp
qed

section \<open>Search\<close>

lemma door_pattern_matches:
  "re_fragment ''^Door.*'' = Some (re_search ''^Door.*'')"
  "re_search ''^Door.*'' ''Doors''"
  "re_search ''^Door.*'' ''Door Width''"
  by (simp_all add: re_fragment_def re_search_def)

text \<open>
  C7. For a pattern the engine compiles, \<^verbatim>\<open>find\<close> returns exactly the groups whose
  name the pattern matches and exactly the parameters whose name it matches, each in
  the order of the file; a pattern the engine rejects is a PatternError. With the
  engine of the examples the pattern \<^verbatim>\<open>^Door.*\<close> returns the group named Doors and
  the parameter named Door Width.
\<close>

theorem find_returns_matching_entries:
  "(engine pattern = Some matches \<longrightarrow>
      find_entries engine f pattern
        = Inr (filter (\<lambda>g. matches (pg_name g)) (groups f),
               filter (\<lambda>p. matches (pd_name p)) (params f)))
   \<and> (engine pattern = Some matches \<longrightarrow>
        (\<exists>gs ps. find_entries engine f pattern = Inr (gs, ps)
           \<and> (\<forall>g. g \<in> set gs \<longleftrightarrow> g \<in> set (groups f) \<and> matches (pg_name g))
           \<and> (\<forall>p. p \<in> set ps \<longleftrightarrow> p \<in> set (params f) \<and> matches (pd_name p))))
   \<and> (engine pattern = None \<longleftrightarrow> find_entries engine f pattern = Inl (PatternError pattern))
   \<and> (groups f = [g] \<and> pg_name g = ''Doors'' \<and> params f = [p] \<and> pd_name p = ''Door Width''
        \<longrightarrow> find_entries re_fragment f ''^Door.*'' = Inr ([g], [p]))"
proof -
  have general: "engine pattern = Some matches \<longrightarrow>
      find_entries engine f pattern
        = Inr (filter (\<lambda>g. matches (pg_name g)) (groups f),
               filter (\<lambda>p. matches (pd_name p)) (params f))"
    by (simp add: find_entries_def)
  then have sets: "engine pattern = Some matches \<longrightarrow>
        (\<exists>gs ps. find_entries engine f pattern = Inr (gs, ps)
           \<and> (\<forall>g. g \<in> set gs \<longleftrightarrow> g \<in> set (groups f) \<and> matches (pg_name g))
           \<and> (\<forall>p. p \<in> set ps \<longleftrightarrow> p \<in> set (params f) \<and> matches (pd_name p)))"
    by simp
  have failure: "engine pattern = None \<longleftrightarrow> find_entries engine f pattern = Inl (PatternError pattern)"
    by (cases "engine pattern") (simp_all add: find_entries_def)
  have doors: "groups f = [g] \<and> pg_name g = ''Doors'' \<and> params f = [p] \<and> pd_name p = ''Door Width''
        \<longrightarrow> find_entries re_fragment f ''^Door.*'' = Inr ([g], [p])"
    by (simp add: find_entries_def door_pattern_matches)
  show ?thesis
    using general sets failure doors by blast
qed

theorem find_returns_matching_entries_witness:
  "find_entries re_fragment door_file ''^Door.*''
     = Inr ([\<lparr> pg_id = 1, pg_name = ''Doors'', pg_line_number = 1 \<rparr>],
            [pdef ''guid-1'' ''Door Width'' 1 3])
   \<and> find_entries re_fragment (door_file \<lparr> groups := take 1 (groups door_file),
                                           params := take 1 (params door_file) \<rparr>) ''^Door.*''
     = Inr ([\<lparr> pg_id = 1, pg_name = ''Doors'', pg_line_number = 1 \<rparr>],
            [pdef ''guid-1'' ''Door Width'' 1 3])
   \<and> find_entries re_fragment door_file ''^door.*'' = Inr ([], [])
   \<and> find_entries re_fragment door_file ''*oor'' = Inl (PatternError ''*oor'')"
proof -
  have e: "re_fragment ''^Door.*'' = Some (re_search ''^Door.*'')"
    by (rule door_pattern_matches)
  have all_file: "find_entries re_fragment door_file ''^Door.*''
     = Inr ([\<lparr> pg_id = 1, pg_name = ''Doors'', pg_line_number = 1 \<rparr>],
            [pdef ''guid-1'' ''Door Width'' 1 3])"
    using find_returns_matching_entries
            [of re_fragment "''^Door.*''" "re_search ''^Door.*''" door_file, THEN conjunct1] e
    by (simp add: door_file_def pdef_def re_search_def)
  have one_each: "find_entries re_fragment (door_file \<lparr> groups := take 1 (groups door_file),
                                           params := take 1 (params door_file) \<rparr>) ''^Door.*''
     = Inr ([\<lparr> pg_id = 1, pg_name = ''Doors'', pg_line_number = 1 \<rparr>],
            [pdef ''guid-1'' ''Door Width'' 1 3])"
    using find_returns_matching_entries
            [of re_fragment "''^Door.*''" "re_search ''^Door.*''"
                "door_file \<lparr> groups := take 1 (groups door_file),
                             params := take 1 (params door_file) \<rparr>"
                "\<lparr> pg_id = 1, pg_name = ''Doors'', pg_line_number = 1 \<rparr>"
                "pdef ''guid-1'' ''Door Width'' 1 3",
             THEN conjunct2, THEN conjunct2, THEN conjunct2]
    by (simp add: door_file_def pdef_def)
  have lower: "find_entries re_fragment door_file ''^door.*'' = Inr ([], [])"
    by (simp add: find_entries_def re_fragment_def re_search_def door_file_def pdef_def)
  have bad: "find_entries re_fragment door_file ''*oor'' = Inl (PatternError ''*oor'')"
    using find_returns_matching_entries
            [of re_fragment "''*oor''" _ door_file, THEN conjunct2, THEN conjunct2, THEN conjunct1]
    by (simp add: re_fragment_def)
  show ?thesis
    using all_file one_each lower bad by simp
qed

section \<open>Parsing\<close>

lemma parse_line_malformed:
  "malformed raw \<Longrightarrow> parse_line n raw = Inl (MalformedLineError n raw)"
  by (auto simp: malformed_def too_few_fields_def bad_value_def parse_line_def
        parse_group_def parse_param_def Let_def split: option.splits)

lemma parse_line_well_formed:
  "\<not> malformed raw \<Longrightarrow> \<exists>r. parse_line n raw = Inr r"
  by (auto simp: malformed_def too_few_fields_def bad_value_def parse_line_def
        parse_group_def parse_param_def Let_def split: option.splits)

lemma parse_line_error:
  "parse_line n raw = Inl e \<Longrightarrow> e = MalformedLineError n raw \<and> malformed raw"
proof (cases "malformed raw")
  case True
  assume "parse_line n raw = Inl e"
  with parse_line_malformed [OF True, of n] True show ?thesis by simp
next
  case False
  assume "parse_line n raw = Inl e"
  with parse_line_well_formed [OF False, of n] show ?thesis by auto
qed

lemma parse_lines_well_formed:
  "\<forall>raw\<in>set ls. \<not> malformed raw \<Longrightarrow> \<exists>f. parse_lines n ls acc = Inr f"
proof (induction ls arbitrary: n acc)
  case Nil
  show ?case by simp
next
  case (Cons raw ls)
  then have "\<not> malformed raw" by simp
  then obtain r where r: "parse_line n raw = Inr r"
    using parse_line_well_formed by blast
  from Cons have "\<forall>raw\<in>set ls. \<not> malformed raw" by simp
  from Cons.IH [OF this, of "Suc n" "add_entry r acc"] r show ?case
    by simp
qed

lemma parse_lines_error:
  "parse_lines n ls acc = Inl e \<Longrightarrow>
   \<exists>k<length ls. e = MalformedLineError (n + k) (ls ! k) \<and> malformed (ls ! k)
                \<and> (\<forall>j<k. \<not> malformed (ls ! j))"
proof (induction ls arbitrary: n acc)
  case Nil
  then show ?case by simp
next
  case (Cons raw ls)
  show ?case
  proof (cases "parse_line n raw")
    case (Inl e')
    with Cons.prems have "e' = e" by simp
    with Inl parse_line_error [of n raw e] have "e = MalformedLineError n raw \<and> malformed raw"
      by simp
    then have "0 < length (raw # ls) \<and> e = MalformedLineError (n + 0) ((raw # ls) ! 0)
                 \<and> malformed ((raw # ls) ! 0) \<and> (\<forall>j<0. \<not> malformed ((raw # ls) ! j))"
      by simp
    then show ?thesis by blast
  next
    case (Inr r)
    with Cons.prems have rest: "parse_lines (Suc n) ls (add_entry r acc) = Inl e"
      by simp
    from Inr have ok: "\<not> malformed raw"
      using parse_line_malformed [of raw n] by auto
    from Cons.IH [OF rest] obtain k where k: "k < length ls"
      "e = MalformedLineError (Suc n + k) (ls ! k)" "malformed (ls ! k)"
      "\<forall>j<k. \<not> malformed (ls ! j)"
      by blast
    have "\<forall>j<Suc k. \<not> malformed ((raw # ls) ! j)"
    proof (intro allI impI)
      fix j assume "j < Suc k"
      then show "\<not> malformed ((raw # ls) ! j)"
        using ok k(4) by (cases j) simp_all
    qed
    with k have "Suc k < length (raw # ls) \<and> e = MalformedLineError (n + Suc k) ((raw # ls) ! Suc k)
                 \<and> malformed ((raw # ls) ! Suc k) \<and> (\<forall>j<Suc k. \<not> malformed ((raw # ls) ! j))"
      by simp
    then show ?thesis by blast
  qed
qed

lemma parse_lines_malformed:
  assumes "\<exists>raw\<in>set ls. malformed raw"
  shows "\<exists>k raw. parse_lines n ls acc = Inl (MalformedLineError k raw)"
proof (cases "parse_lines n ls acc")
  case (Inl e)
  with parse_lines_error [OF Inl] show ?thesis by blast
next
  case (Inr f)
  have "\<exists>raw\<in>set ls. malformed raw \<Longrightarrow> parse_lines n ls acc = Inr f \<Longrightarrow> False"
  proof (induction ls arbitrary: n acc)
    case Nil
    then show ?case by simp
  next
    case (Cons raw ls)
    show ?case
    proof (cases "malformed raw")
      case True
      from parse_line_malformed [OF True, of n] Cons.prems(2) show False by simp
    next
      case False
      then obtain r where r: "parse_line n raw = Inr r"
        using parse_line_well_formed by blast
      from False Cons.prems(1) have "\<exists>raw\<in>set ls. malformed raw" by simp
      moreover from r Cons.prems(2) have "parse_lines (Suc n) ls (add_entry r acc) = Inr f"
        by simp
      ultimately show False by (rule Cons.IH)
    qed
  qed
  with assms Inr show ?thesis by blast
qed

text \<open>
  C9, as the parser of the specification has it. \<^verbatim>\<open>parse\<close> fails with DecodeError
  exactly when the bytes cannot be decoded under the encoding. For decodable bytes it
  fails with MalformedLineError exactly when some \<^verbatim>\<open>GROUP\<close> or \<^verbatim>\<open>PARAM\<close> line
  has too few fields for its kind or has an id, a group id or a GUID that is not
  well formed; the error names the first such line, by its number from 1 and its text.
  Otherwise it returns a File.
\<close>

theorem parse_outcomes:
  "(parse decode bytes encoding = Inl (DecodeError e)
      \<longleftrightarrow> decode encoding bytes = None \<and> e = encoding)
   \<and> (decode encoding bytes = Some text \<longrightarrow>
        ((\<exists>n raw. parse decode bytes encoding = Inl (MalformedLineError n raw))
           \<longleftrightarrow> (\<exists>raw\<in>set (split_on nl text). too_few_fields raw \<or> bad_value raw)))
   \<and> (decode encoding bytes = Some text
        \<and> parse decode bytes encoding = Inl (MalformedLineError n raw) \<longrightarrow>
          1 \<le> n \<and> n \<le> length (split_on nl text) \<and> raw = split_on nl text ! (n - 1)
          \<and> (too_few_fields raw \<or> bad_value raw)
          \<and> (\<forall>j<n - 1. \<not> (too_few_fields (split_on nl text ! j)
                           \<or> bad_value (split_on nl text ! j))))
   \<and> (decode encoding bytes = Some text
        \<and> (\<forall>raw\<in>set (split_on nl text). \<not> (too_few_fields raw \<or> bad_value raw))
        \<longrightarrow> (\<exists>file. parse decode bytes encoding = Inr file))"
proof -
  let ?empty = "\<lparr> groups = [], params = [] \<rparr>"
  have decode_error: "parse decode bytes encoding = Inl (DecodeError e)
      \<longleftrightarrow> decode encoding bytes = None \<and> e = encoding"
  proof (cases "decode encoding bytes")
    case None
    then show ?thesis by (auto simp: parse_def)
  next
    case (Some t)
    have "parse_lines 1 (split_on nl t) ?empty \<noteq> Inl (DecodeError e)"
      using parse_lines_error [of 1 "split_on nl t" ?empty "DecodeError e"] by auto
    with Some show ?thesis by (simp add: parse_def)
  qed
  have malformed_iff: "decode encoding bytes = Some text \<longrightarrow>
        ((\<exists>n raw. parse decode bytes encoding = Inl (MalformedLineError n raw))
           \<longleftrightarrow> (\<exists>raw\<in>set (split_on nl text). too_few_fields raw \<or> bad_value raw))"
  proof
    assume d: "decode encoding bytes = Some text"
    show "(\<exists>n raw. parse decode bytes encoding = Inl (MalformedLineError n raw))
           \<longleftrightarrow> (\<exists>raw\<in>set (split_on nl text). too_few_fields raw \<or> bad_value raw)"
    proof
      assume "\<exists>n raw. parse decode bytes encoding = Inl (MalformedLineError n raw)"
      then obtain n raw where
        "parse_lines 1 (split_on nl text) ?empty = Inl (MalformedLineError n raw)"
        using d by (auto simp: parse_def)
      from parse_lines_error [OF this] obtain k where
        "k < length (split_on nl text)" "malformed (split_on nl text ! k)"
        by blast
      then have "\<exists>raw\<in>set (split_on nl text). malformed raw"
        using nth_mem by blast
      then show "\<exists>raw\<in>set (split_on nl text). too_few_fields raw \<or> bad_value raw"
        by (simp add: malformed_def)
    next
      assume "\<exists>raw\<in>set (split_on nl text). too_few_fields raw \<or> bad_value raw"
      then have "\<exists>raw\<in>set (split_on nl text). malformed raw"
        by (simp add: malformed_def)
      from parse_lines_malformed [OF this, of 1 ?empty]
      show "\<exists>n raw. parse decode bytes encoding = Inl (MalformedLineError n raw)"
        using d by (simp add: parse_def)
    qed
  qed
  have first_line: "decode encoding bytes = Some text
        \<and> parse decode bytes encoding = Inl (MalformedLineError n raw) \<longrightarrow>
          1 \<le> n \<and> n \<le> length (split_on nl text) \<and> raw = split_on nl text ! (n - 1)
          \<and> (too_few_fields raw \<or> bad_value raw)
          \<and> (\<forall>j<n - 1. \<not> (too_few_fields (split_on nl text ! j)
                           \<or> bad_value (split_on nl text ! j)))"
  proof
    assume h: "decode encoding bytes = Some text
        \<and> parse decode bytes encoding = Inl (MalformedLineError n raw)"
    then have "parse_lines 1 (split_on nl text) ?empty = Inl (MalformedLineError n raw)"
      by (auto simp: parse_def)
    from parse_lines_error [OF this] obtain k where k: "k < length (split_on nl text)"
      "MalformedLineError n raw = MalformedLineError (1 + k) (split_on nl text ! k)"
      "malformed (split_on nl text ! k)" "\<forall>j<k. \<not> malformed (split_on nl text ! j)"
      by blast
    from k(2) have "n = Suc k" "raw = split_on nl text ! k" by simp_all
    with k(1,3,4) show "1 \<le> n \<and> n \<le> length (split_on nl text) \<and> raw = split_on nl text ! (n - 1)
          \<and> (too_few_fields raw \<or> bad_value raw)
          \<and> (\<forall>j<n - 1. \<not> (too_few_fields (split_on nl text ! j)
                           \<or> bad_value (split_on nl text ! j)))"
      by (simp add: malformed_def)
  qed
  have returns: "decode encoding bytes = Some text
        \<and> (\<forall>raw\<in>set (split_on nl text). \<not> (too_few_fields raw \<or> bad_value raw))
        \<longrightarrow> (\<exists>file. parse decode bytes encoding = Inr file)"
  proof
    assume h: "decode encoding bytes = Some text
        \<and> (\<forall>raw\<in>set (split_on nl text). \<not> (too_few_fields raw \<or> bad_value raw))"
    then have "\<forall>raw\<in>set (split_on nl text). \<not> malformed raw"
      by (simp add: malformed_def)
    from parse_lines_well_formed [OF this, of 1 ?empty] h
    show "\<exists>file. parse decode bytes encoding = Inr file"
      by (simp add: parse_def)
  qed
  show ?thesis
    using decode_error malformed_iff first_line returns by blast
qed

theorem parse_outcomes_witness:
  "parse decode_ascii good_text ''utf-8'' =
     Inr \<lparr> groups = [\<lparr> pg_id = 1, pg_name = ''Doors'', pg_line_number = 2 \<rparr>],
           params = [\<lparr> pd_guid = ''0a1b2c3d-0000-0000-0000-00000000000f'', pd_name = ''Width'',
                       pd_data_type = ''LENGTH'', pd_group_id = 1, pd_data_category = [],
                       pd_visible = ''1'', pd_description = [], pd_user_modifiable = [],
                       pd_line_number = 4 \<rparr>] \<rparr>
   \<and> (\<exists>file. parse decode_ascii good_text ''utf-8'' = Inr file)
   \<and> (\<exists>n raw. parse decode_ascii short_text ''utf-8'' = Inl (MalformedLineError n raw))
   \<and> parse decode_ascii short_text ''utf-8''
       = Inl (MalformedLineError 2 (join tab [''GROUP'', ''2'']))
   \<and> parse decode_ascii [CHR 0xFF] ''utf-8'' = Inl (DecodeError ''utf-8'')"
proof -
  have good_decoded: "decode_ascii ''utf-8'' good_text = Some good_text"
    by code_simp
  have good_lines: "\<forall>raw\<in>set (split_on nl good_text). \<not> (too_few_fields raw \<or> bad_value raw)"
    by code_simp
  have good: "\<exists>file. parse decode_ascii good_text ''utf-8'' = Inr file"
    using parse_outcomes [of decode_ascii good_text "''utf-8''" _ good_text]
      good_decoded good_lines by blast
  have good_file: "parse decode_ascii good_text ''utf-8'' =
     Inr \<lparr> groups = [\<lparr> pg_id = 1, pg_name = ''Doors'', pg_line_number = 2 \<rparr>],
           params = [\<lparr> pd_guid = ''0a1b2c3d-0000-0000-0000-00000000000f'', pd_name = ''Width'',
                       pd_data_type = ''LENGTH'', pd_group_id = 1, pd_data_category = [],
                       pd_visible = ''1'', pd_description = [], pd_user_modifiable = [],
                       pd_line_number = 4 \<rparr>] \<rparr>"
    by code_simp
  have short_decoded: "decode_ascii ''utf-8'' short_text = Some short_text"
    by code_simp
  have short_line: "\<exists>raw\<in>set (split_on nl short_text). too_few_fields raw \<or> bad_value raw"
    by code_simp
  have short: "\<exists>n raw. parse decode_ascii short_text ''utf-8'' = Inl (MalformedLineError n raw)"
    using parse_outcomes [of decode_ascii short_text "''utf-8''" _ short_text]
      short_decoded short_line by blast
  have short_error: "parse decode_ascii short_text ''utf-8''
       = Inl (MalformedLineError 2 (join tab [''GROUP'', ''2'']))"
    by code_simp
  have undecodable: "decode_ascii ''utf-8'' [CHR 0xFF] = None"
    by code_simp
  have decode_error: "parse decode_ascii [CHR 0xFF] ''utf-8'' = Inl (DecodeError ''utf-8'')"
    using parse_outcomes [of decode_ascii "[CHR 0xFF]" "''utf-8''" "''utf-8''"] undecodable
    by blast
  show ?thesis
    using good good_file short short_error decode_error by blast
qed

text \<open>
  C9 as stated fails: the line \<^verbatim>\<open>GROUP x Doors\<close> has the three fields of a group,
  and the parse fails with MalformedLineError all the same, on the id that is not an
  integer.
\<close>

theorem parse_malformed_counterexample:
  "decode_ascii ''utf-8'' bad_id_text = Some bad_id_text
   \<and> parse decode_ascii bad_id_text ''utf-8'' = Inl (MalformedLineError 1 bad_id_text)
   \<and> \<not> (\<exists>raw\<in>set (split_on nl bad_id_text). too_few_fields raw)"
  by code_simp

end
